theory Spec2Isabelle
  imports Complex_Main "HOL-Library.Sublist" "HOL-Library.Word"
begin

section \<open>The pregnancy food checker: routes/analyze.py\<close>

text \<open>
  A shallow embedding of \<^verbatim>\<open>src/pregnancy-food-api/src/routes/analyze.py\<close>: the mock
  classifier \<^verbatim>\<open>analyze_image_mock\<close>, the vision call \<^verbatim>\<open>call_gemini_api\<close> with the
  interpretation of the model's reply, and the endpoint \<^verbatim>\<open>analyze_food\<close>.

  Conventions.
  \<^item> A Python \<^verbatim>\<open>str\<close> is a \<open>string\<close> holding its UTF-8 encoding. Every character the
    code searches for (comma, braces, the prefix \<^verbatim>\<open>data:image/\<close>, the key \<^verbatim>\<open>image\<close>) is
    ASCII, and an ASCII byte never occurs inside the encoding of another code point, so
    searching, splitting and concatenating bytes agrees with Python's code points.
  \<^item> A raised exception is the \<open>Inl\<close> of a sum; \<^verbatim>\<open>try ... except Exception\<close> is a case
    distinction on it.
  \<^item> What the module reads from outside itself (the process environment, the random
    generator, the standard library's base64 and JSON decoders, \<^verbatim>\<open>str()\<close> of a value, and
    the remote model) is a field of the record \<open>world\<close>. Theorems hold for every world.
  \<^item> The one outbound effect, the call of the remote model, is logged: functions that can
    reach it return the list of image payloads they sent, in order.
\<close>

subsection \<open>Values\<close>

text \<open>The values \<^verbatim>\<open>json.loads\<close> and \<^verbatim>\<open>request.get_json\<close> produce. An object keeps its keys
  in insertion order, each key once; the first binding of a key is the dictionary's value
  for it. \<open>JFloat\<close> holds the value of a finite float.\<close>

datatype json =
    JNull
  | JBool bool
  | JInt int
  | JFloat real
  | JString string
  | JArray "json list"
  | JObject "(string \<times> json) list"

type_synonym bytes = "8 word list"

text \<open>The exceptions the module can meet. \<open>Raised msg\<close> is an exception raised inside a
  library or by the remote call, with \<^verbatim>\<open>str(e) = msg\<close>.\<close>

datatype exn =
    KeyError string
  | IndexError
  | AttributeError string string
  | TypeError string
  | Raised string

definition quoted :: "string \<Rightarrow> string" where
  "quoted s = [CHR 0x27] @ s @ [CHR 0x27]"

fun exn_str :: "exn \<Rightarrow> string" where
  "exn_str (KeyError k) = quoted k"
| "exn_str IndexError = ''list index out of range''"
| "exn_str (AttributeError ty attr) = quoted ty @ '' object has no attribute '' @ quoted attr"
| "exn_str (TypeError msg) = msg"
| "exn_str (Raised msg) = msg"

fun type_name :: "json \<Rightarrow> string" where
  "type_name JNull = ''NoneType''"
| "type_name (JBool _) = ''bool''"
| "type_name (JInt _) = ''int''"
| "type_name (JFloat _) = ''float''"
| "type_name (JString _) = ''str''"
| "type_name (JArray _) = ''list''"
| "type_name (JObject _) = ''dict''"

text \<open>Python's truth value of a JSON value (\<^verbatim>\<open>not data\<close>, \<^verbatim>\<open>if f.get('risk')\<close>).\<close>

fun truthy :: "json \<Rightarrow> bool" where
  "truthy JNull = False"
| "truthy (JBool b) = b"
| "truthy (JInt i) = (i \<noteq> 0)"
| "truthy (JFloat r) = (r \<noteq> 0)"
| "truthy (JString s) = (s \<noteq> [])"
| "truthy (JArray xs) = (xs \<noteq> [])"
| "truthy (JObject kvs) = (kvs \<noteq> [])"

definition bind_exn :: "exn + 'a \<Rightarrow> ('a \<Rightarrow> exn + 'b) \<Rightarrow> exn + 'b" where
  "bind_exn m f = (case m of Inl e \<Rightarrow> Inl e | Inr x \<Rightarrow> f x)"

fun map_exn :: "('a \<Rightarrow> exn + 'b) \<Rightarrow> 'a list \<Rightarrow> exn + 'b list" where
  "map_exn f [] = Inr []"
| "map_exn f (x # xs) =
     bind_exn (f x) (\<lambda>y. bind_exn (map_exn f xs) (\<lambda>ys. Inr (y # ys)))"

text \<open>\<^verbatim>\<open>d.get(key, default)\<close>: only a dictionary has the method.\<close>

definition py_get :: "json \<Rightarrow> string \<Rightarrow> json \<Rightarrow> exn + json" where
  "py_get d key dflt =
     (case d of
        JObject kvs \<Rightarrow> Inr (case map_of kvs key of None \<Rightarrow> dflt | Some v \<Rightarrow> v)
      | _ \<Rightarrow> Inl (AttributeError (type_name d) ''get''))"

text \<open>\<^verbatim>\<open>d[key]\<close> with a string key.\<close>

definition py_getitem :: "json \<Rightarrow> string \<Rightarrow> exn + json" where
  "py_getitem d key =
     (case d of
        JObject kvs \<Rightarrow> (case map_of kvs key of None \<Rightarrow> Inl (KeyError key) | Some v \<Rightarrow> Inr v)
      | JArray _ \<Rightarrow> Inl (TypeError ''list indices must be integers or slices, not str'')
      | JString _ \<Rightarrow> Inl (TypeError (''string indices must be integers, not '' @ quoted ''str''))
      | _ \<Rightarrow> Inl (TypeError (quoted (type_name d) @ '' object is not subscriptable'')))"

text \<open>\<^verbatim>\<open>key in d\<close> with a string key: a key of a dictionary, an element of a list, a
  substring of a string; a type error on the values that are no containers.\<close>

fun contains_str :: "string \<Rightarrow> string \<Rightarrow> bool" where
  "contains_str pat [] = (pat = [])"
| "contains_str pat (c # cs) = (prefix pat (c # cs) \<or> contains_str pat cs)"

definition py_contains :: "string \<Rightarrow> json \<Rightarrow> exn + bool" where
  "py_contains key d =
     (case d of
        JObject kvs \<Rightarrow> Inr (key \<in> set (map fst kvs))
      | JArray xs \<Rightarrow> Inr (JString key \<in> set xs)
      | JString s \<Rightarrow> Inr (contains_str key s)
      | _ \<Rightarrow> Inl (TypeError (''argument of type '' @ quoted (type_name d) @ '' is not iterable'')))"

text \<open>\<^verbatim>\<open>for f in foods\<close>: a list gives its elements, a dictionary its keys, a string its
  characters as strings of length one (here one per byte, where Python gives one per code
  point: either way every item is a \<^verbatim>\<open>str\<close>, and there is none exactly when the string is
  empty); the other values are not iterable.\<close>

definition py_iter :: "json \<Rightarrow> exn + json list" where
  "py_iter v =
     (case v of
        JArray xs \<Rightarrow> Inr xs
      | JObject kvs \<Rightarrow> Inr (map (\<lambda>kv. JString (fst kv)) kvs)
      | JString s \<Rightarrow> Inr (map (\<lambda>c. JString [c]) s)
      | _ \<Rightarrow> Inl (TypeError (quoted (type_name v) @ '' object is not iterable'')))"

text \<open>\<^verbatim>\<open>sep.join(xs)\<close> and \<^verbatim>\<open>s.split(sep)\<close> for a separator of one character.\<close>

fun py_join :: "string \<Rightarrow> string list \<Rightarrow> string" where
  "py_join sep [] = []"
| "py_join sep [x] = x"
| "py_join sep (x # y # ys) = x @ sep @ py_join sep (y # ys)"

fun py_split :: "char \<Rightarrow> string \<Rightarrow> string list" where
  "py_split sep [] = [[]]"
| "py_split sep (c # cs) =
     (if c = sep then [] # py_split sep cs
      else (case py_split sep cs of [] \<Rightarrow> [[c]] | s # ss \<Rightarrow> (c # s) # ss))"

definition utf8 :: "nat list \<Rightarrow> string" where
  "utf8 bs = map char_of bs"

subsection \<open>The catalogue and the messages\<close>

text \<open>The texts of the module are Japanese; each is given by its UTF-8 bytes, ASCII runs
  as literals, with a gloss of what it says.\<close>

definition MSG_SAFE :: string where
  \<comment> \<open>line 62 and line 125: the meal can be eaten safely during pregnancy\<close>
  "MSG_SAFE = utf8 [0xE3, 0x81, 0x93, 0xE3, 0x81, 0xAE, 0xE9, 0xA3, 0x9F, 0xE4, 0xBA, 0x8B,
    0xE3, 0x81, 0xAF, 0xE5, 0xA6, 0x8A, 0xE5, 0xA8, 0xA0, 0xE4, 0xB8, 0xAD, 0xE3, 0x81, 0xA7,
    0xE3, 0x82, 0x82, 0xE5, 0xAE, 0x89, 0xE5, 0xBF, 0x83, 0xE3, 0x81, 0x97, 0xE3, 0x81, 0xA6,
    0xE3, 0x81, 0x8A, 0xE5, 0x8F, 0xAC, 0xE3, 0x81, 0x97, 0xE4, 0xB8, 0x8A, 0xE3, 0x81, 0x8C,
    0xE3, 0x82, 0x8A, 0xE3, 0x81, 0x84, 0xE3, 0x81, 0x9F, 0xE3, 0x81, 0xA0, 0xE3, 0x81, 0x91,
    0xE3, 0x81, 0xBE, 0xE3, 0x81, 0x99]"

definition MSG_NO_KEY :: string where
  \<comment> \<open>line 72: the Gemini API key is not set\<close>
  "MSG_NO_KEY = ''Gemini API'' @ utf8 [0xE3, 0x82, 0xAD, 0xE3, 0x83, 0xBC, 0xE3, 0x81, 0x8C,
    0xE8, 0xA8, 0xAD, 0xE5, 0xAE, 0x9A, 0xE3, 0x81, 0x95, 0xE3, 0x82, 0x8C, 0xE3, 0x81, 0xA6,
    0xE3, 0x81, 0x84, 0xE3, 0x81, 0xBE, 0xE3, 0x81, 0x9B, 0xE3, 0x82, 0x93]"

definition MSG_NO_JSON :: string where
  \<comment> \<open>line 107: no JSON could be extracted from the Gemini response\<close>
  "MSG_NO_JSON = ''Gemini'' @ utf8 [0xE3, 0x81, 0xAE, 0xE3, 0x83, 0xAC, 0xE3, 0x82, 0xB9, 0xE3,
    0x83, 0x9D, 0xE3, 0x83, 0xB3, 0xE3, 0x82, 0xB9, 0xE3, 0x81, 0x8B, 0xE3, 0x82, 0x89] @
    ''JSON'' @ utf8 [0xE3, 0x82, 0x92, 0xE6, 0x8A, 0xBD, 0xE5, 0x87, 0xBA, 0xE3, 0x81, 0xA7,
    0xE3, 0x81, 0x8D, 0xE3, 0x81, 0xBE, 0xE3, 0x81, 0x9B, 0xE3, 0x82, 0x93, 0xE3, 0x81, 0xA7,
    0xE3, 0x81, 0x97, 0xE3, 0x81, 0x9F]"

definition MSG_PARSE_ERROR :: string where
  \<comment> \<open>line 118, the text before the cause: Gemini JSON parse error\<close>
  "MSG_PARSE_ERROR = ''Gemini'' @ utf8 [0xE3, 0x81, 0xAE] @ ''JSON'' @ utf8 [0xE3, 0x83, 0x91,
    0xE3, 0x83, 0xBC, 0xE3, 0x82, 0xB9, 0xE3, 0x82, 0xA8, 0xE3, 0x83, 0xA9, 0xE3, 0x83, 0xBC] @
    '': ''"

definition MSG_RISK :: string where
  \<comment> \<open>line 129: risky foods are contained, check the details\<close>
  "MSG_RISK = utf8 [0xE3, 0x83, 0xAA, 0xE3, 0x82, 0xB9, 0xE3, 0x82, 0xAF, 0xE3, 0x81, 0x8C,
    0xE3, 0x81, 0x82, 0xE3, 0x82, 0x8B, 0xE9, 0xA3, 0x9F, 0xE5, 0x93, 0x81, 0xE3, 0x81, 0x8C,
    0xE5, 0x90, 0xAB, 0xE3, 0x81, 0xBE, 0xE3, 0x82, 0x8C, 0xE3, 0x81, 0xA6, 0xE3, 0x81, 0x84,
    0xE3, 0x81, 0xBE, 0xE3, 0x81, 0x99, 0xE3, 0x80, 0x82, 0xE8, 0xA9, 0xB3, 0xE7, 0xB4, 0xB0,
    0xE3, 0x82, 0x92, 0xE3, 0x81, 0x94, 0xE7, 0xA2, 0xBA, 0xE8, 0xAA, 0x8D, 0xE3, 0x81, 0x8F,
    0xE3, 0x81, 0xA0, 0xE3, 0x81, 0x95, 0xE3, 0x81, 0x84, 0xE3, 0x80, 0x82]"

definition MSG_API_ERROR :: string where
  \<comment> \<open>line 142, the text before the cause: Gemini API call error\<close>
  "MSG_API_ERROR = ''Gemini API'' @ utf8 [0xE5, 0x91, 0xBC, 0xE3, 0x81, 0xB3, 0xE5, 0x87, 0xBA,
    0xE3, 0x81, 0x97, 0xE3, 0x82, 0xA8, 0xE3, 0x83, 0xA9, 0xE3, 0x83, 0xBC] @ '': ''"

definition MSG_NO_IMAGE :: string where
  \<comment> \<open>line 157: no image data was provided\<close>
  "MSG_NO_IMAGE = utf8 [0xE7, 0x94, 0xBB, 0xE5, 0x83, 0x8F, 0xE3, 0x83, 0x87, 0xE3, 0x83, 0xBC,
    0xE3, 0x82, 0xBF, 0xE3, 0x81, 0x8C, 0xE6, 0x8F, 0x90, 0xE4, 0xBE, 0x9B, 0xE3, 0x81, 0x95,
    0xE3, 0x82, 0x8C, 0xE3, 0x81, 0xA6, 0xE3, 0x81, 0x84, 0xE3, 0x81, 0xBE, 0xE3, 0x81, 0x9B,
    0xE3, 0x82, 0x93]"

definition MSG_INVALID_FORMAT :: string where
  \<comment> \<open>line 165: invalid image format\<close>
  "MSG_INVALID_FORMAT = utf8 [0xE7, 0x84, 0xA1, 0xE5, 0x8A, 0xB9, 0xE3, 0x81, 0xAA, 0xE7, 0x94,
    0xBB, 0xE5, 0x83, 0x8F, 0xE5, 0xBD, 0xA2, 0xE5, 0xBC, 0x8F, 0xE3, 0x81, 0xA7, 0xE3, 0x81,
    0x99]"

definition MSG_ANALYSIS_ERROR :: string where
  \<comment> \<open>line 178, the text before the cause: an error occurred during analysis\<close>
  "MSG_ANALYSIS_ERROR = utf8 [0xE5, 0x88, 0x86, 0xE6, 0x9E, 0x90, 0xE4, 0xB8, 0xAD, 0xE3, 0x81,
    0xAB, 0xE3, 0x82, 0xA8, 0xE3, 0x83, 0xA9, 0xE3, 0x83, 0xBC, 0xE3, 0x81, 0x8C, 0xE7, 0x99,
    0xBA, 0xE7, 0x94, 0x9F, 0xE3, 0x81, 0x97, 0xE3, 0x81, 0xBE, 0xE3, 0x81, 0x97, 0xE3, 0x81,
    0x9F] @ '': ''"

definition raw_fish_keywords :: "string list" where
  "raw_fish_keywords = [utf8 [0xE5, 0x88, 0xBA, 0xE8, 0xBA, 0xAB], utf8 [0xE3, 0x81, 0x95, 0xE3,
    0x81, 0x97, 0xE3, 0x81, 0xBF], ''sashimi'', utf8 [0xE7, 0x94, 0x9F, 0xE9, 0xAD, 0x9A], utf8
    [0xE5, 0xAF, 0xBF, 0xE5, 0x8F, 0xB8], ''sushi'', utf8 [0xE3, 0x83, 0x9E, 0xE3, 0x82, 0xB0,
    0xE3, 0x83, 0xAD], utf8 [0xE3, 0x82, 0xB5, 0xE3, 0x83, 0xBC, 0xE3, 0x83, 0xA2, 0xE3, 0x83,
    0xB3]]"

definition raw_fish_message :: string where
  \<comment> \<open>raw fish is contained; advice for pregnancy\<close>
  "raw_fish_message = utf8 [0xE7, 0x94, 0x9F, 0xE9, 0xAD, 0x9A, 0xE3, 0x81, 0x8C, 0xE5, 0x90,
    0xAB, 0xE3, 0x81, 0xBE, 0xE3, 0x82, 0x8C, 0xE3, 0x81, 0xA6, 0xE3, 0x81, 0x8A, 0xE3, 0x82,
    0x8A, 0xE3, 0x80, 0x81, 0xE5, 0xA6, 0x8A, 0xE5, 0xA8, 0xA0, 0xE4, 0xB8, 0xAD, 0xE3, 0x81,
    0xAF, 0xE9, 0x81, 0xBF, 0xE3, 0x81, 0x91, 0xE3, 0x82, 0x8B, 0xE3, 0x81, 0x93, 0xE3, 0x81,
    0xA8, 0xE3, 0x82, 0x92, 0xE3, 0x81, 0x8A, 0xE5, 0x8B, 0xA7, 0xE3, 0x82, 0x81, 0xE3, 0x81,
    0x97, 0xE3, 0x81, 0xBE, 0xE3, 0x81, 0x99]"

definition raw_fish_details :: string where
  \<comment> \<open>the risk of raw fish; consult a doctor\<close>
  "raw_fish_details = utf8 [0xE7, 0x94, 0x9F, 0xE9, 0xAD, 0x9A, 0xE3, 0x81, 0xAB, 0xE3, 0x81,
    0xAF, 0xE3, 0x83, 0xAA, 0xE3, 0x82, 0xB9, 0xE3, 0x83, 0x86, 0xE3, 0x83, 0xAA, 0xE3, 0x82,
    0xA2, 0xE8, 0x8F, 0x8C, 0xE3, 0x82, 0x84, 0xE5, 0xAF, 0x84, 0xE7, 0x94, 0x9F, 0xE8, 0x99,
    0xAB, 0xE3, 0x81, 0xAE, 0xE3, 0x83, 0xAA, 0xE3, 0x82, 0xB9, 0xE3, 0x82, 0xAF, 0xE3, 0x81,
    0x8C, 0xE3, 0x81, 0x82, 0xE3, 0x82, 0x8A, 0xE3, 0x81, 0xBE, 0xE3, 0x81, 0x99, 0xE3, 0x80,
    0x82, 0xE8, 0xA9, 0xB3, 0xE3, 0x81, 0x97, 0xE3, 0x81, 0x8F, 0xE3, 0x81, 0xAF, 0xE5, 0x8C,
    0xBB, 0xE5, 0xB8, 0xAB, 0xE3, 0x81, 0xAB, 0xE3, 0x81, 0x94, 0xE7, 0x9B, 0xB8, 0xE8, 0xAB,
    0x87, 0xE3, 0x81, 0x8F, 0xE3, 0x81, 0xA0, 0xE3, 0x81, 0x95, 0xE3, 0x81, 0x84]"

definition raw_meat_keywords :: "string list" where
  "raw_meat_keywords = [utf8 [0xE3, 0x83, 0xA6, 0xE3, 0x83, 0x83, 0xE3, 0x82, 0xB1], utf8 [0xE3,
    0x83, 0xAC, 0xE3, 0x82, 0xA2, 0xE3, 0x82, 0xB9, 0xE3, 0x83, 0x86, 0xE3, 0x83, 0xBC, 0xE3,
    0x82, 0xAD], utf8 [0xE7, 0x94, 0x9F, 0xE3, 0x83, 0x8F, 0xE3, 0x83, 0xA0], utf8 [0xE7, 0x94,
    0x9F, 0xE8, 0x82, 0x89]]"

definition raw_meat_message :: string where
  \<comment> \<open>raw meat is contained; advice for pregnancy\<close>
  "raw_meat_message = utf8 [0xE7, 0x94, 0x9F, 0xE8, 0x82, 0x89, 0xE3, 0x81, 0x8C, 0xE5, 0x90,
    0xAB, 0xE3, 0x81, 0xBE, 0xE3, 0x82, 0x8C, 0xE3, 0x81, 0xA6, 0xE3, 0x81, 0x8A, 0xE3, 0x82,
    0x8A, 0xE3, 0x80, 0x81, 0xE5, 0xA6, 0x8A, 0xE5, 0xA8, 0xA0, 0xE4, 0xB8, 0xAD, 0xE3, 0x81,
    0xAF, 0xE9, 0x81, 0xBF, 0xE3, 0x81, 0x91, 0xE3, 0x82, 0x8B, 0xE3, 0x81, 0x93, 0xE3, 0x81,
    0xA8, 0xE3, 0x82, 0x92, 0xE3, 0x81, 0x8A, 0xE5, 0x8B, 0xA7, 0xE3, 0x82, 0x81, 0xE3, 0x81,
    0x97, 0xE3, 0x81, 0xBE, 0xE3, 0x81, 0x99]"

definition raw_meat_details :: string where
  \<comment> \<open>the risk of raw meat; consult a doctor\<close>
  "raw_meat_details = utf8 [0xE3, 0x83, 0x88, 0xE3, 0x82, 0xAD, 0xE3, 0x82, 0xBD, 0xE3, 0x83,
    0x97, 0xE3, 0x83, 0xA9, 0xE3, 0x82, 0xBA, 0xE3, 0x83, 0x9E, 0xE3, 0x82, 0x84, 0xE3, 0x83,
    0xAA, 0xE3, 0x82, 0xB9, 0xE3, 0x83, 0x86, 0xE3, 0x83, 0xAA, 0xE3, 0x82, 0xA2, 0xE8, 0x8F,
    0x8C, 0xE3, 0x81, 0xAE, 0xE3, 0x83, 0xAA, 0xE3, 0x82, 0xB9, 0xE3, 0x82, 0xAF, 0xE3, 0x81,
    0x8C, 0xE3, 0x81, 0x82, 0xE3, 0x82, 0x8A, 0xE3, 0x81, 0xBE, 0xE3, 0x81, 0x99, 0xE3, 0x80,
    0x82, 0xE8, 0xA9, 0xB3, 0xE3, 0x81, 0x97, 0xE3, 0x81, 0x8F, 0xE3, 0x81, 0xAF, 0xE5, 0x8C,
    0xBB, 0xE5, 0xB8, 0xAB, 0xE3, 0x81, 0xAB, 0xE3, 0x81, 0x94, 0xE7, 0x9B, 0xB8, 0xE8, 0xAB,
    0x87, 0xE3, 0x81, 0x8F, 0xE3, 0x81, 0xA0, 0xE3, 0x81, 0x95, 0xE3, 0x81, 0x84]"

definition raw_egg_keywords :: "string list" where
  "raw_egg_keywords = [utf8 [0xE7, 0x94, 0x9F, 0xE5, 0x8D, 0xB5], utf8 [0xE5, 0x8D, 0x8A, 0xE7,
    0x86, 0x9F, 0xE5, 0x8D, 0xB5], utf8 [0xE3, 0x82, 0xAB, 0xE3, 0x83, 0xAB, 0xE3, 0x83, 0x9C,
    0xE3, 0x83, 0x8A, 0xE3, 0x83, 0xBC, 0xE3, 0x83, 0xA9]]"

definition raw_egg_message :: string where
  \<comment> \<open>raw egg is contained; advice for pregnancy\<close>
  "raw_egg_message = utf8 [0xE7, 0x94, 0x9F, 0xE5, 0x8D, 0xB5, 0xE3, 0x81, 0x8C, 0xE5, 0x90,
    0xAB, 0xE3, 0x81, 0xBE, 0xE3, 0x82, 0x8C, 0xE3, 0x81, 0xA6, 0xE3, 0x81, 0x8A, 0xE3, 0x82,
    0x8A, 0xE3, 0x80, 0x81, 0xE5, 0xA6, 0x8A, 0xE5, 0xA8, 0xA0, 0xE4, 0xB8, 0xAD, 0xE3, 0x81,
    0xAF, 0xE6, 0xB3, 0xA8, 0xE6, 0x84, 0x8F, 0xE3, 0x81, 0x8C, 0xE5, 0xBF, 0x85, 0xE8, 0xA6,
    0x81, 0xE3, 0x81, 0xA7, 0xE3, 0x81, 0x99]"

definition raw_egg_details :: string where
  \<comment> \<open>the risk of raw egg; consult a doctor\<close>
  "raw_egg_details = utf8 [0xE3, 0x82, 0xB5, 0xE3, 0x83, 0xAB, 0xE3, 0x83, 0xA2, 0xE3, 0x83,
    0x8D, 0xE3, 0x83, 0xA9, 0xE8, 0x8F, 0x8C, 0xE3, 0x81, 0xAE, 0xE3, 0x83, 0xAA, 0xE3, 0x82,
    0xB9, 0xE3, 0x82, 0xAF, 0xE3, 0x81, 0x8C, 0xE3, 0x81, 0x82, 0xE3, 0x82, 0x8A, 0xE3, 0x81,
    0xBE, 0xE3, 0x81, 0x99, 0xE3, 0x80, 0x82, 0xE8, 0xA9, 0xB3, 0xE3, 0x81, 0x97, 0xE3, 0x81,
    0x8F, 0xE3, 0x81, 0xAF, 0xE5, 0x8C, 0xBB, 0xE5, 0xB8, 0xAB, 0xE3, 0x81, 0xAB, 0xE3, 0x81,
    0x94, 0xE7, 0x9B, 0xB8, 0xE8, 0xAB, 0x87, 0xE3, 0x81, 0x8F, 0xE3, 0x81, 0xA0, 0xE3, 0x81,
    0x95, 0xE3, 0x81, 0x84]"

definition soft_cheese_keywords :: "string list" where
  "soft_cheese_keywords = [utf8 [0xE3, 0x83, 0x8A, 0xE3, 0x83, 0x81, 0xE3, 0x83, 0xA5, 0xE3,
    0x83, 0xA9, 0xE3, 0x83, 0xAB, 0xE3, 0x83, 0x81, 0xE3, 0x83, 0xBC, 0xE3, 0x82, 0xBA], utf8
    [0xE3, 0x82, 0xAB, 0xE3, 0x83, 0x9E, 0xE3, 0x83, 0xB3, 0xE3, 0x83, 0x99, 0xE3, 0x83, 0xBC,
    0xE3, 0x83, 0xAB], utf8 [0xE3, 0x83, 0x96, 0xE3, 0x83, 0xAB, 0xE3, 0x83, 0xBC, 0xE3, 0x83,
    0x81, 0xE3, 0x83, 0xBC, 0xE3, 0x82, 0xBA]]"

definition soft_cheese_message :: string where
  \<comment> \<open>natural cheese is contained; advice for pregnancy\<close>
  "soft_cheese_message = utf8 [0xE3, 0x83, 0x8A, 0xE3, 0x83, 0x81, 0xE3, 0x83, 0xA5, 0xE3, 0x83,
    0xA9, 0xE3, 0x83, 0xAB, 0xE3, 0x83, 0x81, 0xE3, 0x83, 0xBC, 0xE3, 0x82, 0xBA, 0xE3, 0x81,
    0x8C, 0xE5, 0x90, 0xAB, 0xE3, 0x81, 0xBE, 0xE3, 0x82, 0x8C, 0xE3, 0x81, 0xA6, 0xE3, 0x81,
    0x8A, 0xE3, 0x82, 0x8A, 0xE3, 0x80, 0x81, 0xE5, 0xA6, 0x8A, 0xE5, 0xA8, 0xA0, 0xE4, 0xB8,
    0xAD, 0xE3, 0x81, 0xAF, 0xE9, 0x81, 0xBF, 0xE3, 0x81, 0x91, 0xE3, 0x82, 0x8B, 0xE3, 0x81,
    0x93, 0xE3, 0x81, 0xA8, 0xE3, 0x82, 0x92, 0xE3, 0x81, 0x8A, 0xE5, 0x8B, 0xA7, 0xE3, 0x82,
    0x81, 0xE3, 0x81, 0x97, 0xE3, 0x81, 0xBE, 0xE3, 0x81, 0x99]"

definition soft_cheese_details :: string where
  \<comment> \<open>the risk of natural cheese; consult a doctor\<close>
  "soft_cheese_details = utf8 [0xE3, 0x83, 0xAA, 0xE3, 0x82, 0xB9, 0xE3, 0x83, 0x86, 0xE3, 0x83,
    0xAA, 0xE3, 0x82, 0xA2, 0xE8, 0x8F, 0x8C, 0xE3, 0x81, 0xAE, 0xE3, 0x83, 0xAA, 0xE3, 0x82,
    0xB9, 0xE3, 0x82, 0xAF, 0xE3, 0x81, 0x8C, 0xE3, 0x81, 0x82, 0xE3, 0x82, 0x8A, 0xE3, 0x81,
    0xBE, 0xE3, 0x81, 0x99, 0xE3, 0x80, 0x82, 0xE8, 0xA9, 0xB3, 0xE3, 0x81, 0x97, 0xE3, 0x81,
    0x8F, 0xE3, 0x81, 0xAF, 0xE5, 0x8C, 0xBB, 0xE5, 0xB8, 0xAB, 0xE3, 0x81, 0xAB, 0xE3, 0x81,
    0x94, 0xE7, 0x9B, 0xB8, 0xE8, 0xAB, 0x87, 0xE3, 0x81, 0x8F, 0xE3, 0x81, 0xA0, 0xE3, 0x81,
    0x95, 0xE3, 0x81, 0x84]"

definition alcohol_keywords :: "string list" where
  "alcohol_keywords = [utf8 [0xE3, 0x82, 0xA2, 0xE3, 0x83, 0xAB, 0xE3, 0x82, 0xB3, 0xE3, 0x83,
    0xBC, 0xE3, 0x83, 0xAB], utf8 [0xE3, 0x83, 0xAF, 0xE3, 0x82, 0xA4, 0xE3, 0x83, 0xB3], utf8
    [0xE3, 0x83, 0x93, 0xE3, 0x83, 0xBC, 0xE3, 0x83, 0xAB], utf8 [0xE6, 0x97, 0xA5, 0xE6, 0x9C,
    0xAC, 0xE9, 0x85, 0x92], utf8 [0xE7, 0x84, 0xBC, 0xE9, 0x85, 0x8E]]"

definition alcohol_message :: string where
  \<comment> \<open>alcohol is contained; advice for pregnancy\<close>
  "alcohol_message = utf8 [0xE3, 0x82, 0xA2, 0xE3, 0x83, 0xAB, 0xE3, 0x82, 0xB3, 0xE3, 0x83,
    0xBC, 0xE3, 0x83, 0xAB, 0xE3, 0x81, 0x8C, 0xE5, 0x90, 0xAB, 0xE3, 0x81, 0xBE, 0xE3, 0x82,
    0x8C, 0xE3, 0x81, 0xA6, 0xE3, 0x81, 0x8A, 0xE3, 0x82, 0x8A, 0xE3, 0x80, 0x81, 0xE5, 0xA6,
    0x8A, 0xE5, 0xA8, 0xA0, 0xE4, 0xB8, 0xAD, 0xE3, 0x81, 0xAF, 0xE6, 0x91, 0x82, 0xE5, 0x8F,
    0x96, 0xE3, 0x82, 0x92, 0xE9, 0x81, 0xBF, 0xE3, 0x81, 0x91, 0xE3, 0x81, 0xA6, 0xE3, 0x81,
    0x8F, 0xE3, 0x81, 0xA0, 0xE3, 0x81, 0x95, 0xE3, 0x81, 0x84]"

definition alcohol_details :: string where
  \<comment> \<open>the risk of alcohol; consult a doctor\<close>
  "alcohol_details = utf8 [0xE8, 0x83, 0x8E, 0xE5, 0x85, 0x90, 0xE3, 0x81, 0xAE, 0xE7, 0x99,
    0xBA, 0xE8, 0x82, 0xB2, 0xE3, 0x81, 0xAB, 0xE5, 0xBD, 0xB1, 0xE9, 0x9F, 0xBF, 0xE3, 0x82,
    0x92, 0xE4, 0xB8, 0x8E, 0xE3, 0x81, 0x88, 0xE3, 0x82, 0x8B, 0xE5, 0x8F, 0xAF, 0xE8, 0x83,
    0xBD, 0xE6, 0x80, 0xA7, 0xE3, 0x81, 0x8C, 0xE3, 0x81, 0x82, 0xE3, 0x82, 0x8A, 0xE3, 0x81,
    0xBE, 0xE3, 0x81, 0x99, 0xE3, 0x80, 0x82, 0xE8, 0xA9, 0xB3, 0xE3, 0x81, 0x97, 0xE3, 0x81,
    0x8F, 0xE3, 0x81, 0xAF, 0xE5, 0x8C, 0xBB, 0xE5, 0xB8, 0xAB, 0xE3, 0x81, 0xAB, 0xE3, 0x81,
    0x94, 0xE7, 0x9B, 0xB8, 0xE8, 0xAB, 0x87, 0xE3, 0x81, 0x8F, 0xE3, 0x81, 0xA0, 0xE3, 0x81,
    0x95, 0xE3, 0x81, 0x84]"

datatype category = raw_fish | raw_meat | raw_egg | soft_cheese | alcohol

record hazard =
  hazard_keywords :: "string list"
  hazard_message :: string
  hazard_details :: string

text \<open>\<^verbatim>\<open>AVOID_FOODS\<close> (lines 12 to 38): a dictionary with exactly these five keys, hence a
  function on them; \<open>category_id\<close> is the key as the string the code returns.\<close>

fun category_id :: "category \<Rightarrow> string" where
  "category_id raw_fish = ''raw_fish''"
| "category_id raw_meat = ''raw_meat''"
| "category_id raw_egg = ''raw_egg''"
| "category_id soft_cheese = ''soft_cheese''"
| "category_id alcohol = ''alcohol''"

fun AVOID_FOODS :: "category \<Rightarrow> hazard" where
  "AVOID_FOODS raw_fish = \<lparr>hazard_keywords = raw_fish_keywords,
     hazard_message = raw_fish_message, hazard_details = raw_fish_details\<rparr>"
| "AVOID_FOODS raw_meat = \<lparr>hazard_keywords = raw_meat_keywords,
     hazard_message = raw_meat_message, hazard_details = raw_meat_details\<rparr>"
| "AVOID_FOODS raw_egg = \<lparr>hazard_keywords = raw_egg_keywords,
     hazard_message = raw_egg_message, hazard_details = raw_egg_details\<rparr>"
| "AVOID_FOODS soft_cheese = \<lparr>hazard_keywords = soft_cheese_keywords,
     hazard_message = soft_cheese_message, hazard_details = soft_cheese_details\<rparr>"
| "AVOID_FOODS alcohol = \<lparr>hazard_keywords = alcohol_keywords,
     hazard_message = alcohol_message, hazard_details = alcohol_details\<rparr>"

subsection \<open>Results and the world\<close>

text \<open>The dictionary every classifier returns. \<^verbatim>\<open>detected_food\<close> is \<^verbatim>\<open>None\<close>, a string, or
  the list of the values found under \<^verbatim>\<open>name\<close>.\<close>

datatype detected = DNone | DStr string | DList "json list"

record assessment =
  safe :: bool
  detected_food :: detected
  message :: string
  details :: string

text \<open>What \<^verbatim>\<open>jsonify\<close> is given, and the status returned with it.\<close>

datatype payload = ErrorBody string | SuccessBody assessment

datatype response = Response (status: nat) (body: payload)

record world =
  GEMINI_API_KEY :: "string option"
  random_random :: real
  random_choice :: category
  b64decode :: "string \<Rightarrow> exn + bytes"
  generate_content :: "bytes \<Rightarrow> exn + string"
  json_loads :: "string \<Rightarrow> exn + json"
  py_str :: "json \<Rightarrow> string"

text \<open>
  \<^item> \<open>GEMINI_API_KEY\<close>: \<^verbatim>\<open>os.environ.get('GEMINI_API_KEY')\<close>.
  \<^item> \<open>random_random\<close>, \<open>random_choice\<close>: what \<^verbatim>\<open>random.random()\<close> returns, and the key
    \<^verbatim>\<open>random.choice(list(AVOID_FOODS.keys()))\<close> draws.
  \<^item> \<open>b64decode\<close>, \<open>json_loads\<close>: \<^verbatim>\<open>base64.b64decode\<close> and \<^verbatim>\<open>json.loads\<close>, raising or
    returning.
  \<^item> \<open>generate_content\<close>: lines 92 to 101, the call of the model with the fixed prompt and
    the image bytes declared as \<^verbatim>\<open>image/jpeg\<close>, followed by reading \<^verbatim>\<open>response.text\<close>;
    the exception of either, or the text.
  \<^item> \<open>py_str\<close>: \<^verbatim>\<open>str(v)\<close> of a value that is no string, as an f-string formats it.
\<close>

subsection \<open>analyze\_image\_mock (lines 40 to 64)\<close>

definition hazard_verdict :: "category \<Rightarrow> assessment" where
  "hazard_verdict food_type =
     \<lparr>safe = False, detected_food = DStr (category_id food_type),
      message = hazard_message (AVOID_FOODS food_type),
      details = hazard_details (AVOID_FOODS food_type)\<rparr>"

definition safe_verdict :: assessment where
  "safe_verdict = \<lparr>safe = True, detected_food = DStr ''safe_food'', message = MSG_SAFE, details = []\<rparr>"

definition analyze_image_mock :: "world \<Rightarrow> string \<Rightarrow> assessment" where
  "analyze_image_mock w image_data =
     (if random_random w < 3 / 10 then hazard_verdict (random_choice w) else safe_verdict)"

subsection \<open>call\_gemini\_api (lines 66 to 144)\<close>

definition missing_key_result :: assessment where
  "missing_key_result =
     \<lparr>safe = False, detected_food = DNone, message = MSG_NO_KEY, details = []\<rparr>"

text \<open>\<^verbatim>\<open>not api_key\<close>: the variable is unset or empty.\<close>

definition no_api_key :: "world \<Rightarrow> bool" where
  "no_api_key w = (case GEMINI_API_KEY w of None \<Rightarrow> True | Some k \<Rightarrow> k = [])"

text \<open>Lines 78 to 81: the element at index 1 of the split at every comma.\<close>

definition image_b64 :: "string \<Rightarrow> exn + string" where
  "image_b64 image_data =
     (if CHR '','' \<in> set image_data
      then (case py_split (CHR '','') image_data of
              _ # s # _ \<Rightarrow> Inr s
            | _ \<Rightarrow> Inl IndexError)
      else Inr image_data)"

text \<open>Line 102, \<^verbatim>\<open>re.search(r'\{[\s\S]*\}', text)\<close>: the leftmost opening brace that has a
  closing brace after it, and greedily everything up to the last closing brace. A closing
  brace after the first opening brace is one after every later opening brace too, so the
  leftmost start that matches, if any does, is the first opening brace.\<close>

definition re_search :: "string \<Rightarrow> string option" where
  "re_search text =
     (case dropWhile (\<lambda>c. c \<noteq> CHR ''{'') text of
        [] \<Rightarrow> None
      | c # rest \<Rightarrow>
          (if CHR ''}'' \<in> set rest
           then Some (c # rev (dropWhile (\<lambda>c. c \<noteq> CHR ''}'') (rev rest)))
           else None))"

text \<open>Lines 112 and 113, the body of the inner \<^verbatim>\<open>try\<close>.\<close>

definition load_foods :: "world \<Rightarrow> string \<Rightarrow> exn + json" where
  "load_foods w foods_json =
     bind_exn (json_loads w foods_json) (\<lambda>foods_data. py_get foods_data ''foods'' (JArray []))"

text \<open>Line 122: \<^verbatim>\<open>[f for f in foods if f.get('risk')]\<close>, on the items of \<^verbatim>\<open>foods\<close>.\<close>

fun risky :: "json list \<Rightarrow> exn + json list" where
  "risky [] = Inr []"
| "risky (f # fs) =
     bind_exn (py_get f ''risk'' JNull) (\<lambda>r.
     bind_exn (risky fs) (\<lambda>rs. Inr (if truthy r then f # rs else rs)))"

text \<open>An f-string field: a string as it is, any other value through \<^verbatim>\<open>str\<close>.\<close>

definition format_value :: "world \<Rightarrow> json \<Rightarrow> string" where
  "format_value w v = (case v of JString s \<Rightarrow> s | _ \<Rightarrow> py_str w v)"

text \<open>Line 131: \<^verbatim>\<open>f"{f['name']}: {f['details']}"\<close>.\<close>

definition detail_line :: "world \<Rightarrow> json \<Rightarrow> exn + string" where
  "detail_line w f =
     bind_exn (py_getitem f ''name'') (\<lambda>n.
     bind_exn (py_getitem f ''details'') (\<lambda>d.
     Inr (format_value w n @ '': '' @ format_value w d)))"

definition no_risk_result :: assessment where
  "no_risk_result = \<lparr>safe = True, detected_food = DList [], message = MSG_SAFE, details = []\<rparr>"

text \<open>Lines 122 to 137.\<close>

definition aggregate :: "world \<Rightarrow> json \<Rightarrow> exn + assessment" where
  "aggregate w foods =
     bind_exn (bind_exn (py_iter foods) risky) (\<lambda>risky_foods.
       if length risky_foods = 0 then Inr no_risk_result
       else
         bind_exn (map_exn (\<lambda>f. py_getitem f ''name'') risky_foods) (\<lambda>names.
         bind_exn (map_exn (detail_line w) risky_foods) (\<lambda>lines.
         Inr \<lparr>safe = False, detected_food = DList names, message = MSG_RISK,
              details = py_join [CHR 0x0A] lines\<rparr>)))"

text \<open>Lines 99 to 137: what the body of the outer \<^verbatim>\<open>try\<close> does with the reply text.\<close>

definition interpret_body :: "world \<Rightarrow> string \<Rightarrow> exn + assessment" where
  "interpret_body w text =
     (case re_search text of
        None \<Rightarrow>
          Inr \<lparr>safe = False, detected_food = DNone, message = MSG_NO_JSON, details = text\<rparr>
      | Some foods_json \<Rightarrow>
          (case load_foods w foods_json of
             Inl e \<Rightarrow>
               Inr \<lparr>safe = False, detected_food = DNone,
                    message = MSG_PARSE_ERROR @ exn_str e, details = foods_json\<rparr>
           | Inr foods \<Rightarrow> aggregate w foods))"

text \<open>Lines 138 to 144, the handler of the outer \<^verbatim>\<open>try\<close>.\<close>

definition api_error_result :: "exn \<Rightarrow> assessment" where
  "api_error_result e =
     \<lparr>safe = False, detected_food = DNone, message = MSG_API_ERROR @ exn_str e, details = []\<rparr>"

definition catch_api_error :: "exn + assessment \<Rightarrow> assessment" where
  "catch_api_error r = (case r of Inl e \<Rightarrow> api_error_result e | Inr a \<Rightarrow> a)"

text \<open>The interpretation of a reply text as \<^verbatim>\<open>call_gemini_api\<close> returns it: lines 99 to 137
  under the handler of lines 138 to 144.\<close>

definition interpret_reply :: "world \<Rightarrow> string \<Rightarrow> assessment" where
  "interpret_reply w text = catch_api_error (interpret_body w text)"

text \<open>The whole function. The result is what it raises or returns, and the payloads sent to
  the model. Decoding (line 83) stands before the \<^verbatim>\<open>try\<close> (line 91). Lines 75 and 76
  configure the client library and build the model object; they send nothing and are taken
  not to raise.\<close>

definition call_gemini_api :: "world \<Rightarrow> string \<Rightarrow> (exn + assessment) \<times> bytes list" where
  "call_gemini_api w image_data =
     (if no_api_key w then (Inr missing_key_result, [])
      else
        (case bind_exn (image_b64 image_data) (b64decode w) of
           Inl e \<Rightarrow> (Inl e, [])
         | Inr image_bytes \<Rightarrow>
             (Inr (catch_api_error
                     (bind_exn (generate_content w image_bytes) (interpret_body w))),
              [image_bytes])))"

subsection \<open>analyze\_food (lines 146 to 179)\<close>

text \<open>\<^verbatim>\<open>image_data.startswith\<close>: only a string has the method.\<close>

definition startswith_of :: "json \<Rightarrow> exn + string" where
  "startswith_of v =
     (case v of
        JString s \<Rightarrow> Inr s
      | _ \<Rightarrow> Inl (AttributeError (type_name v) ''startswith''))"

definition bad_request :: "string \<Rightarrow> (exn + response) \<times> bytes list" where
  "bad_request msg = (Inr (Response 400 (ErrorBody msg)), [])"

text \<open>Lines 152 to 174, the body of the \<^verbatim>\<open>try\<close>; the argument is what
  \<^verbatim>\<open>request.get_json()\<close> raises or returns.\<close>

definition analyze_food_body :: "world \<Rightarrow> exn + json \<Rightarrow> (exn + response) \<times> bytes list" where
  "analyze_food_body w got =
     (case got of
        Inl e \<Rightarrow> (Inl e, [])
      | Inr data \<Rightarrow>
          if \<not> truthy data then bad_request MSG_NO_IMAGE
          else
            (case py_contains ''image'' data of
               Inl e \<Rightarrow> (Inl e, [])
             | Inr False \<Rightarrow> bad_request MSG_NO_IMAGE
             | Inr True \<Rightarrow>
                 (case bind_exn (py_getitem data ''image'') startswith_of of
                    Inl e \<Rightarrow> (Inl e, [])
                  | Inr image_data \<Rightarrow>
                      if \<not> prefix ''data:image/'' image_data then bad_request MSG_INVALID_FORMAT
                      else
                        (case call_gemini_api w image_data of
                           (Inl e, sent) \<Rightarrow> (Inl e, sent)
                         | (Inr result, sent) \<Rightarrow> (Inr (Response 200 (SuccessBody result)), sent)))))"

text \<open>The endpoint with its handler (lines 176 to 179).\<close>

definition analyze_food :: "world \<Rightarrow> exn + json \<Rightarrow> response \<times> bytes list" where
  "analyze_food w got =
     (case analyze_food_body w got of
        (Inl e, sent) \<Rightarrow> (Response 500 (ErrorBody (MSG_ANALYSIS_ERROR @ exn_str e)), sent)
      | (Inr r, sent) \<Rightarrow> (r, sent))"

subsection \<open>Notions of the specification\<close>

text \<open>\<^verbatim>\<open>d.get(key)\<close> on the fields of a dictionary.\<close>

definition dict_get :: "(string \<times> json) list \<Rightarrow> string \<Rightarrow> json" where
  "dict_get kvs key = (case map_of kvs key of None \<Rightarrow> JNull | Some v \<Rightarrow> v)"

text \<open>The items of a sequence of dictionaries whose \<^verbatim>\<open>risk\<close> is truthy, in their order.\<close>

definition flagged :: "(string \<times> json) list list \<Rightarrow> (string \<times> json) list list" where
  "flagged items = filter (\<lambda>f. truthy (dict_get f ''risk'')) items"

text \<open>The specification's reading of the prefix stripping: everything after the first
  comma.\<close>

definition after_first_comma :: "string \<Rightarrow> string" where
  "after_first_comma s = tl (dropWhile (\<lambda>c. c \<noteq> CHR '','') s)"

text \<open>The specification's reading of the extraction: from the first opening brace to the
  closing brace that balances it.\<close>

fun scan_balanced :: "nat \<Rightarrow> string \<Rightarrow> string option" where
  "scan_balanced d [] = None"
| "scan_balanced d (c # cs) =
     (if c = CHR ''}'' then
        (if d \<le> 1 then Some [c] else map_option (Cons c) (scan_balanced (d - 1) cs))
      else if c = CHR ''{'' then map_option (Cons c) (scan_balanced (d + 1) cs)
      else map_option (Cons c) (scan_balanced d cs))"

definition first_balanced :: "string \<Rightarrow> string option" where
  "first_balanced text =
     (case dropWhile (\<lambda>c. c \<noteq> CHR ''{'') text of
        [] \<Rightarrow> None
      | c # rest \<Rightarrow> map_option (Cons c) (scan_balanced 1 rest))"

text \<open>The invariant of section 3 of the specification. \<^verbatim>\<open>detected_food\<close> denotes no hazard
  when it is the marker \<^verbatim>\<open>'safe_food'\<close> of the mock classifier or the empty list of the
  model-backed path; \<^verbatim>\<open>None\<close> says that no assessment was made.\<close>

definition no_hazard :: "detected \<Rightarrow> bool" where
  "no_hazard d = (d = DStr ''safe_food'' \<or> d = DList [])"

definition result_invariant :: "assessment \<Rightarrow> bool" where
  "result_invariant r = (safe r = (no_hazard (detected_food r) \<and> details r = []))"

text \<open>Every verdict the mock classifier can return.\<close>

definition mock_verdicts :: "assessment list" where
  "mock_verdicts =
     safe_verdict # map hazard_verdict [raw_fish, raw_meat, raw_egg, soft_cheese, alcohol]"

subsection \<open>Example worlds\<close>

text \<open>Test doubles for the examples below. Each library function is a finite table that
  agrees with CPython 3.11 on the inputs listed and raises on every other input; the remote
  model answers the image bytes \<open>00 00 00\<close> with a reply naming one risky food, the bytes
  \<open>00 00 01\<close> with a risky item that has no name, and fails on any other image.\<close>

definition example_b64decode :: "string \<Rightarrow> exn + bytes" where
  "example_b64decode s =
     (if s = ''AAAA'' then Inr [0, 0, 0]
      else if s = ''AAAB'' then Inr [0, 0, 1]
      else if s = ''AAAC'' then Inr [0, 0, 2]
      else Inl (Raised (''Invalid base64-encoded string: number of data characters (1) '' @
                        ''cannot be 1 more than a multiple of 4'')))"

definition salmon_json :: string where
  \<open>salmon_json = ''{"foods":[{"name":"salmon","risk":true,"details":"parasites"}]}''\<close>

definition salad_json :: string where
  \<open>salad_json = ''{"foods":[{"name":"salad","risk":false,"details":""}]}''\<close>

definition nameless_json :: string where
  \<open>nameless_json = ''{"foods":[{"risk":true}]}''\<close>

definition malformed_json :: string where
  \<open>malformed_json = ''{"foods": [}''\<close>

definition salmon_item :: "(string \<times> json) list" where
  "salmon_item =
     [(''name'', JString ''salmon''), (''risk'', JBool True), (''details'', JString ''parasites'')]"

definition salad_item :: "(string \<times> json) list" where
  "salad_item = [(''name'', JString ''salad''), (''risk'', JBool False), (''details'', JString [])]"

definition example_json_loads :: "string \<Rightarrow> exn + json" where
  "example_json_loads s =
     (if s = salmon_json then Inr (JObject [(''foods'', JArray [JObject salmon_item])])
      else if s = salad_json then Inr (JObject [(''foods'', JArray [JObject salad_item])])
      else if s = nameless_json
        then Inr (JObject [(''foods'', JArray [JObject [(''risk'', JBool True)]])])
      else if s = malformed_json
        then Inl (Raised ''Expecting value: line 1 column 12 (char 11)'')
      else if s = ''{}'' then Inr (JObject [])
      else Inl (Raised ''Expecting value: line 1 column 1 (char 0)''))"

definition example_generate_content :: "bytes \<Rightarrow> exn + string" where
  "example_generate_content image_bytes =
     (if image_bytes = [0, 0, 0] then Inr (''Here is the result: '' @ salmon_json)
      else if image_bytes = [0, 0, 1] then Inr nameless_json
      else Inl (Raised ''503 Service Unavailable''))"

definition example_py_str :: "json \<Rightarrow> string" where
  "example_py_str v =
     (case v of
        JNull \<Rightarrow> ''None''
      | JBool b \<Rightarrow> (if b then ''True'' else ''False'')
      | _ \<Rightarrow> [])"

definition example_world :: world where
  "example_world =
     \<lparr>GEMINI_API_KEY = Some ''test-key'', random_random = 1 / 2, random_choice = raw_fish,
      b64decode = example_b64decode, generate_content = example_generate_content,
      json_loads = example_json_loads, py_str = example_py_str\<rparr>"

text \<open>The same world with no credential, and with a random generator that flags.\<close>

definition unconfigured_world :: world where
  "unconfigured_world =
     example_world\<lparr>GEMINI_API_KEY := None, random_random := 1 / 10, random_choice := alcohol\<rparr>"

text \<open>What \<^verbatim>\<open>request.get_json()\<close> raises on a request with no body to parse: Werkzeug's
  \<^verbatim>\<open>BadRequest\<close>, with its standard text.\<close>

definition no_body_error :: exn where
  "no_body_error =
     Raised (''400 Bad Request: The browser (or proxy) sent a request that this server '' @
             ''could not understand.'')"

definition image_request :: "string \<Rightarrow> exn + json" where
  "image_request image_data = Inr (JObject [(''image'', JString image_data)])"

section \<open>Properties\<close>

subsection \<open>Exceptions and lists\<close>

lemma bind_exn_Inl [simp]: "bind_exn (Inl e) f = Inl e"
  by (simp add: bind_exn_def)

lemma bind_exn_Inr [simp]: "bind_exn (Inr x) f = f x"
  by (simp add: bind_exn_def)

lemma bind_exn_eq_Inr:
  "bind_exn m f = Inr y \<longleftrightarrow> (\<exists>x. m = Inr x \<and> f x = Inr y)"
  by (cases m) simp_all


lemma map_exn_length: "map_exn f xs = Inr ys \<Longrightarrow> length ys = length xs"
  by (induction xs arbitrary: ys) (auto simp: bind_exn_eq_Inr)

lemma map_exn_all_Inr:
  "(\<And>x. x \<in> set xs \<Longrightarrow> f x = Inr (g x)) \<Longrightarrow> map_exn f xs = Inr (map g xs)"
  by (induction xs) simp_all



subsection \<open>Splitting at commas\<close>

lemma py_split_nonempty: "py_split sep s \<noteq> []"
  by (induction s) (auto split: list.splits)

lemma hd_py_split: "hd (py_split sep s) = takeWhile (\<lambda>c. c \<noteq> sep) s"
  using py_split_nonempty[of sep]
  by (induction s) (auto split: list.splits)

lemma tl_py_split:
  "sep \<in> set s \<Longrightarrow> tl (py_split sep s) = py_split sep (tl (dropWhile (\<lambda>c. c \<noteq> sep) s))"
  using py_split_nonempty[of sep]
  by (induction s) (auto split: list.splits)

lemma py_split_second:
  assumes "sep \<in> set s"
  shows "\<exists>rest. py_split sep s =
    takeWhile (\<lambda>c. c \<noteq> sep) s #
    takeWhile (\<lambda>c. c \<noteq> sep) (tl (dropWhile (\<lambda>c. c \<noteq> sep) s)) # rest"
proof -
  let ?a = "tl (dropWhile (\<lambda>c. c \<noteq> sep) s)"
  obtain x xs where xs: "py_split sep s = x # xs"
    using py_split_nonempty[of sep s] by (cases "py_split sep s") auto
  obtain y ys where ys: "py_split sep ?a = y # ys"
    using py_split_nonempty[of sep ?a] by (cases "py_split sep ?a") auto
  have "x = takeWhile (\<lambda>c. c \<noteq> sep) s" using hd_py_split[of sep s] xs by simp
  moreover have "xs = y # ys" using tl_py_split[OF assms] xs ys by simp
  moreover have "y = takeWhile (\<lambda>c. c \<noteq> sep) ?a" using hd_py_split[of sep ?a] ys by simp
  ultimately show ?thesis using xs by simp
qed

subsection \<open>Dictionaries and the risky items\<close>

lemma py_get_object [simp]:
  "py_get (JObject kvs) key dflt = Inr (case map_of kvs key of None \<Rightarrow> dflt | Some v \<Rightarrow> v)"
  by (simp add: py_get_def)


lemma risky_objects: "risky (map JObject items) = Inr (map JObject (flagged items))"
  by (induction items) (simp_all add: flagged_def dict_get_def)



lemma py_getitem_present:
  "map_of kvs key \<noteq> None \<Longrightarrow> py_getitem (JObject kvs) key = Inr (dict_get kvs key)"
  by (auto simp: py_getitem_def dict_get_def)


lemma detail_line_present:
  "map_of kvs ''name'' \<noteq> None \<Longrightarrow> map_of kvs ''details'' \<noteq> None \<Longrightarrow>
   detail_line w (JObject kvs) =
     Inr (format_value w (dict_get kvs ''name'') @ '': '' @ format_value w (dict_get kvs ''details''))"
  by (simp add: detail_line_def py_getitem_present)


lemma map_of_Some_in_keys: "map_of kvs k = Some v \<Longrightarrow> k \<in> set (map fst kvs)"
  by (metis map_of_eq_None_iff option.distinct(1) set_map)

subsection \<open>The shapes a result can have\<close>

lemma aggregate_cases:
  assumes "aggregate w foods = Inr r"
  shows "r = no_risk_result \<or>
         (\<exists>names lines. names \<noteq> [] \<and>
            r = \<lparr>safe = False, detected_food = DList names, message = MSG_RISK,
                 details = py_join [CHR 0x0A] lines\<rparr>)"
proof -
  from assms obtain risky_foods where
    rest: "(if length risky_foods = 0 then Inr no_risk_result
       else
         bind_exn (map_exn (\<lambda>f. py_getitem f ''name'') risky_foods) (\<lambda>names.
         bind_exn (map_exn (detail_line w) risky_foods) (\<lambda>lines.
         Inr \<lparr>safe = False, detected_food = DList names, message = MSG_RISK,
              details = py_join [CHR 0x0A] lines\<rparr>))) = Inr r"
    unfolding aggregate_def by (auto simp: bind_exn_eq_Inr)
  show ?thesis
  proof (cases "length risky_foods = 0")
    case True
    with rest show ?thesis by simp
  next
    case False
    with rest obtain names lines where
      n: "map_exn (\<lambda>f. py_getitem f ''name'') risky_foods = Inr names"
      and r: "r = \<lparr>safe = False, detected_food = DList names, message = MSG_RISK,
              details = py_join [CHR 0x0A] lines\<rparr>"
      by (auto simp: bind_exn_eq_Inr)
    from map_exn_length[OF n] False have "names \<noteq> []" by auto
    with r show ?thesis by blast
  qed
qed

lemma invariant_no_risk: "result_invariant no_risk_result"
  by (simp add: result_invariant_def no_risk_result_def no_hazard_def)

lemma invariant_unassessed:
  "result_invariant \<lparr>safe = False, detected_food = DNone, message = msg, details = d\<rparr>"
  by (simp add: result_invariant_def no_hazard_def)

lemma invariant_risk:
  "names \<noteq> [] \<Longrightarrow>
   result_invariant \<lparr>safe = False, detected_food = DList names, message = msg, details = d\<rparr>"
  by (simp add: result_invariant_def no_hazard_def)

lemma invariant_catch:
  "(\<And>r. x = Inr r \<Longrightarrow> result_invariant r) \<Longrightarrow> result_invariant (catch_api_error x)"
  by (cases x) (simp_all add: catch_api_error_def api_error_result_def invariant_unassessed)

lemma invariant_interpret_body:
  assumes "interpret_body w text = Inr r"
  shows "result_invariant r"
proof (cases "re_search text")
  case None
  with assms show ?thesis by (auto simp: interpret_body_def invariant_unassessed)
next
  case (Some m)
  show ?thesis
  proof (cases "load_foods w m")
    case (Inl e)
    with Some assms show ?thesis by (auto simp: interpret_body_def invariant_unassessed)
  next
    case (Inr foods)
    with Some assms have "aggregate w foods = Inr r" by (simp add: interpret_body_def)
    from aggregate_cases[OF this] show ?thesis
      by (auto simp: invariant_no_risk invariant_risk)
  qed
qed

lemma category_id_not_safe_food: "category_id c \<noteq> ''safe_food''"
  by (cases c) simp_all

lemma invariant_mock: "result_invariant (analyze_image_mock w image_data)"
  by (simp add: analyze_image_mock_def result_invariant_def hazard_verdict_def safe_verdict_def
      no_hazard_def category_id_not_safe_food)

lemma invariant_call:
  assumes "call_gemini_api w image_data = (Inr r, sent)"
  shows "result_invariant r"
proof (cases "no_api_key w")
  case True
  with assms show ?thesis
    by (auto simp: call_gemini_api_def missing_key_result_def invariant_unassessed)
next
  case False
  with assms obtain image_bytes where
    r: "r = catch_api_error (bind_exn (generate_content w image_bytes) (interpret_body w))"
    by (auto simp: call_gemini_api_def split: sum.splits)
  show ?thesis unfolding r
    by (rule invariant_catch) (auto simp: bind_exn_eq_Inr dest: invariant_interpret_body)
qed

subsection \<open>The paths through call\_gemini\_api and analyze\_food\<close>

lemma call_gemini_api_reply:
  assumes "\<not> no_api_key w"
    and "bind_exn (image_b64 image_data) (b64decode w) = Inr image_bytes"
    and "generate_content w image_bytes = Inr text"
  shows "call_gemini_api w image_data = (Inr (interpret_reply w text), [image_bytes])"
  using assms by (simp add: call_gemini_api_def interpret_reply_def)

lemma call_gemini_api_unavailable:
  assumes "\<not> no_api_key w"
    and "bind_exn (image_b64 image_data) (b64decode w) = Inr image_bytes"
    and "generate_content w image_bytes = Inl e"
  shows "call_gemini_api w image_data = (Inr (api_error_result e), [image_bytes])"
  using assms by (simp add: call_gemini_api_def catch_api_error_def)

lemma call_gemini_api_no_key:
  "no_api_key w \<Longrightarrow> call_gemini_api w image_data = (Inr missing_key_result, [])"
  by (simp add: call_gemini_api_def)

lemma call_gemini_api_decode_raises:
  assumes "\<not> no_api_key w"
    and "bind_exn (image_b64 image_data) (b64decode w) = Inl e"
  shows "call_gemini_api w image_data = (Inl e, [])"
  using assms by (simp add: call_gemini_api_def)

text \<open>A body that is an object with a string under \<^verbatim>\<open>image\<close> that passes the prefix check
  reaches the call.\<close>

lemma analyze_food_body_valid:
  assumes "map_of kvs ''image'' = Some (JString image_data)"
    and "prefix ''data:image/'' image_data"
  shows "analyze_food_body w (Inr (JObject kvs)) =
     (case call_gemini_api w image_data of
        (Inl e, sent) \<Rightarrow> (Inl e, sent)
      | (Inr result, sent) \<Rightarrow> (Inr (Response 200 (SuccessBody result)), sent))"
proof -
  from assms(1) have ne: "kvs \<noteq> []" by auto
  from assms(1) have "''image'' \<in> set (map fst kvs)" by (rule map_of_Some_in_keys)
  then have c: "py_contains ''image'' (JObject kvs) = Inr True" by (simp add: py_contains_def)
  have g: "bind_exn (py_getitem (JObject kvs) ''image'') startswith_of = Inr image_data"
    using assms(1) by (simp add: py_getitem_def startswith_of_def)
  show ?thesis
    unfolding analyze_food_body_def using ne c g assms(2) by simp
qed

subsection \<open>The example worlds, evaluated\<close>

lemma example_has_key: "\<not> no_api_key example_world"
  by (simp add: no_api_key_def example_world_def)

lemma unconfigured_no_key: "no_api_key unconfigured_world"
  by (simp add: no_api_key_def unconfigured_world_def example_world_def)

lemma example_decode_AAAA:
  "bind_exn (image_b64 ''data:image/png;base64,AAAA'') (b64decode example_world) = Inr [0, 0, 0]"
  by (simp add: image_b64_def example_world_def example_b64decode_def)


lemma example_decode_AAAC:
  "bind_exn (image_b64 ''data:image/png;base64,AAAC'') (b64decode example_world) = Inr [0, 0, 2]"
  by (simp add: image_b64_def example_world_def example_b64decode_def)

lemma example_decode_A:
  "bind_exn (image_b64 ''data:image/png;base64,A'') (b64decode example_world) =
     Inl (Raised (''Invalid base64-encoded string: number of data characters (1) '' @
                  ''cannot be 1 more than a multiple of 4''))"
  by (simp add: image_b64_def example_world_def example_b64decode_def)

lemma example_reply_salmon:
  "generate_content example_world [0, 0, 0] = Inr (''Here is the result: '' @ salmon_json)"
  by (simp add: example_world_def example_generate_content_def)

lemma example_reply_unavailable:
  "generate_content example_world [0, 0, 2] = Inl (Raised ''503 Service Unavailable'')"
  by (simp add: example_world_def example_generate_content_def)


lemma request_AAAA:
  "map_of [(''image'', JString ''data:image/png;base64,AAAA'')] ''image'' =
      Some (JString ''data:image/png;base64,AAAA'')"
  by simp

lemma request_AAAC:
  "map_of [(''image'', JString ''data:image/png;base64,AAAC'')] ''image'' =
      Some (JString ''data:image/png;base64,AAAC'')"
  by simp

lemma prefix_AAAA: "prefix ''data:image/'' ''data:image/png;base64,AAAA''"
  by simp

lemma prefix_AAAC: "prefix ''data:image/'' ''data:image/png;base64,AAAC''"
  by simp

subsection \<open>The regular expression\<close>

lemma dropWhile_Cons_hd: "dropWhile P xs = y # ys \<Longrightarrow> \<not> P y"
  by (metis hd_dropWhile list.discI list.sel(1))

lemma re_search_Some:
  assumes "re_search text = Some m"
  shows "\<exists>pre body post. text = pre @ m @ post \<and> CHR ''{'' \<notin> set pre \<and>
           m = CHR ''{'' # body @ [CHR ''}''] \<and> CHR ''}'' \<notin> set post"
proof -
  let ?open = "\<lambda>c. c \<noteq> CHR ''{''" and ?close = "\<lambda>c. c \<noteq> CHR ''}''"
  from assms obtain c rest where d: "dropWhile ?open text = c # rest"
    and inr: "CHR ''}'' \<in> set rest"
    and m: "m = c # rev (dropWhile ?close (rev rest))"
    by (auto simp: re_search_def split: list.splits if_splits)
  from dropWhile_Cons_hd[OF d] have c: "c = CHR ''{''" by simp
  let ?pre = "takeWhile ?open text"
  have t: "text = ?pre @ c # rest" using d takeWhile_dropWhile_id[of "?open" "text"] by simp
  have pre: "CHR ''{'' \<notin> set ?pre" by (auto dest: set_takeWhileD)
  from inr have "dropWhile ?close (rev rest) \<noteq> []"
    by (simp add: dropWhile_eq_Nil_conv)
  then obtain y ys where y: "dropWhile ?close (rev rest) = y # ys"
    by (cases "dropWhile ?close (rev rest)") auto
  from dropWhile_Cons_hd[OF y] have yc: "y = CHR ''}''" by simp
  let ?post = "rev (takeWhile ?close (rev rest))"
  have "rev rest = takeWhile ?close (rev rest) @ y # ys"
    using y takeWhile_dropWhile_id[of "?close" "rev rest"] by simp
  then have "rev (rev rest) = rev (takeWhile ?close (rev rest) @ y # ys)" by simp
  then have rest: "rest = rev ys @ [y] @ ?post" by simp
  have post: "CHR ''}'' \<notin> set ?post" by (auto dest: set_takeWhileD)
  have mm: "m = CHR ''{'' # rev ys @ [CHR ''}'']" using m y c yc by simp
  have "text = ?pre @ m @ ?post" using t rest mm c yc by simp
  with pre mm post show ?thesis by blast
qed

lemma re_search_None:
  "re_search text = None \<longleftrightarrow>
     \<not> (\<exists>pre mid post. text = pre @ CHR ''{'' # mid @ CHR ''}'' # post)"
proof
  assume n: "re_search text = None"
  show "\<not> (\<exists>pre mid post. text = pre @ CHR ''{'' # mid @ CHR ''}'' # post)"
  proof
    assume "\<exists>pre mid post. text = pre @ CHR ''{'' # mid @ CHR ''}'' # post"
    then obtain pre mid post where t: "text = pre @ CHR ''{'' # mid @ CHR ''}'' # post" by blast
    let ?open = "\<lambda>c. c \<noteq> CHR ''{''"
    have "\<exists>c rest. dropWhile ?open text = c # rest \<and> CHR ''}'' \<in> set rest"
    proof (cases "dropWhile ?open pre")
      case Nil
      then have "\<forall>x\<in>set pre. ?open x" by (simp add: dropWhile_eq_Nil_conv)
      then have "dropWhile ?open text = CHR ''{'' # mid @ CHR ''}'' # post"
        unfolding t by (simp add: dropWhile_append)
      then show ?thesis by simp
    next
      case (Cons y ys)
      then have "dropWhile ?open pre \<noteq> []" by simp
      then have "\<not> (\<forall>x\<in>set pre. ?open x)"
        by (simp add: dropWhile_eq_Nil_conv)
      then have "dropWhile ?open (pre @ CHR ''{'' # mid @ CHR ''}'' # post) =
          dropWhile ?open pre @ CHR ''{'' # mid @ CHR ''}'' # post"
        by (simp only: dropWhile_append if_False)
      then have "dropWhile ?open text = y # ys @ CHR ''{'' # mid @ CHR ''}'' # post"
        using Cons t by simp
      then show ?thesis by simp
    qed
    then obtain c rest where "dropWhile ?open text = c # rest" "CHR ''}'' \<in> set rest"
      by blast
    then have "re_search text \<noteq> None" by (simp add: re_search_def)
    with n show False by simp
  qed
next
  assume a: "\<not> (\<exists>pre mid post. text = pre @ CHR ''{'' # mid @ CHR ''}'' # post)"
  show "re_search text = None"
  proof (cases "re_search text")
    case None
    then show ?thesis .
  next
    case (Some m)
    from re_search_Some[OF this] obtain pre body post where
      "text = pre @ m @ post" "m = CHR ''{'' # body @ [CHR ''}'']" by blast
    then have "text = pre @ CHR ''{'' # body @ CHR ''}'' # post" by simp
    with a show ?thesis by blast
  qed
qed

subsection \<open>What the interpretation reads of the world\<close>

lemma format_value_library:
  "py_str w = py_str w' \<Longrightarrow> format_value w v = format_value w' v"
  by (cases v) (simp_all add: format_value_def)

lemma detail_line_library:
  assumes "py_str w = py_str w'"
  shows "detail_line w = detail_line w'"
proof
  fix f
  have "format_value w = format_value w'"
    using format_value_library[OF assms] by (rule ext)
  then show "detail_line w f = detail_line w' f"
    by (simp add: detail_line_def)
qed

lemma aggregate_library:
  assumes "py_str w = py_str w'"
  shows "aggregate w foods = aggregate w' foods"
  using detail_line_library[OF assms] by (simp add: aggregate_def cong: if_cong)

lemma load_foods_library:
  "json_loads w = json_loads w' \<Longrightarrow> load_foods w m = load_foods w' m"
  by (simp add: load_foods_def)

lemma interpret_body_library:
  assumes "json_loads w = json_loads w'" and "py_str w = py_str w'"
  shows "interpret_body w text = interpret_body w' text"
proof -
  have "load_foods w = load_foods w'"
    using load_foods_library[OF assms(1)] by (rule ext)
  moreover have "aggregate w = aggregate w'"
    using aggregate_library[OF assms(2)] by (rule ext)
  ultimately show ?thesis
    by (simp add: interpret_body_def cong: option.case_cong sum.case_cong)
qed

subsection \<open>The aggregation of the foods\<close>

lemma map_exn_map_all_Inr:
  "(\<And>x. x \<in> set xs \<Longrightarrow> f (h x) = Inr (g x)) \<Longrightarrow> map_exn f (map h xs) = Inr (map g xs)"
  by (induction xs) simp_all

lemma load_foods_object:
  "json_loads w m = Inr (JObject kvs) \<Longrightarrow>
   load_foods w m = Inr (case map_of kvs ''foods'' of None \<Rightarrow> JArray [] | Some v \<Rightarrow> v)"
  by (simp add: load_foods_def)

lemma load_foods_raises:
  "json_loads w m = Inl e \<Longrightarrow> load_foods w m = Inl e"
  by (simp add: load_foods_def)

lemma aggregate_objects:
  assumes wf: "\<forall>f\<in>set (flagged items). map_of f ''name'' \<noteq> None \<and> map_of f ''details'' \<noteq> None"
  shows "aggregate w (JArray (map JObject items)) =
     Inr (if flagged items = [] then no_risk_result
          else \<lparr>safe = False,
                detected_food = DList (map (\<lambda>f. dict_get f ''name'') (flagged items)),
                message = MSG_RISK,
                details = py_join [CHR 0x0A]
                  (map (\<lambda>f. format_value w (dict_get f ''name'') @ '': '' @
                             format_value w (dict_get f ''details'')) (flagged items))\<rparr>)"
proof -
  have r: "bind_exn (py_iter (JArray (map JObject items))) risky = Inr (map JObject (flagged items))"
    by (simp add: py_iter_def risky_objects)
  have n: "map_exn (\<lambda>f. py_getitem f ''name'') (map JObject (flagged items)) =
      Inr (map (\<lambda>f. dict_get f ''name'') (flagged items))"
    by (rule map_exn_map_all_Inr) (use wf in \<open>simp add: py_getitem_present\<close>)
  have d: "map_exn (detail_line w) (map JObject (flagged items)) =
      Inr (map (\<lambda>f. format_value w (dict_get f ''name'') @ '': '' @
                             format_value w (dict_get f ''details'')) (flagged items))"
    by (rule map_exn_map_all_Inr) (use wf in \<open>simp add: detail_line_present\<close>)
  show ?thesis
    unfolding aggregate_def r by (simp add: n d)
qed




subsection \<open>The example replies, evaluated\<close>

lemma re_search_salmon: "re_search (''Here is the result: '' @ salmon_json) = Some salmon_json"
  by (simp add: re_search_def salmon_json_def)

lemma re_search_salad: "re_search salad_json = Some salad_json"
  by (simp add: re_search_def salad_json_def)

lemma re_search_nameless: "re_search nameless_json = Some nameless_json"
  by (simp add: re_search_def nameless_json_def)

lemma re_search_malformed: "re_search (''Draft: '' @ malformed_json @ '' (end)'') = Some malformed_json"
  by (simp add: re_search_def malformed_json_def)

lemma example_loads_salmon:
  "json_loads example_world salmon_json = Inr (JObject [(''foods'', JArray [JObject salmon_item])])"
  by (simp add: example_world_def example_json_loads_def)

lemma example_loads_salad:
  "json_loads example_world salad_json = Inr (JObject [(''foods'', JArray [JObject salad_item])])"
  by (simp add: example_world_def example_json_loads_def salad_json_def salmon_json_def)

lemma example_loads_nameless:
  "json_loads example_world nameless_json =
     Inr (JObject [(''foods'', JArray [JObject [(''risk'', JBool True)]])])"
  by (simp add: example_world_def example_json_loads_def salad_json_def salmon_json_def
      nameless_json_def)

lemma example_loads_malformed:
  "json_loads example_world malformed_json =
     Inl (Raised ''Expecting value: line 1 column 12 (char 11)'')"
  by (simp add: example_world_def example_json_loads_def salad_json_def salmon_json_def
      nameless_json_def malformed_json_def)

lemma re_search_empty_object: "re_search ''{}'' = Some ''{}''"
  by (simp add: re_search_def)

lemma example_loads_empty_object: "json_loads example_world ''{}'' = Inr (JObject [])"
  by (simp add: example_world_def example_json_loads_def salad_json_def salmon_json_def
      nameless_json_def malformed_json_def)

lemma flagged_salmon: "flagged [salmon_item] = [salmon_item]"
  by (simp add: flagged_def dict_get_def salmon_item_def)

lemma flagged_salad: "flagged [salad_item] = []"
  by (simp add: flagged_def dict_get_def salad_item_def)

lemma example_interpret_nameless:
  "interpret_body example_world nameless_json = Inl (KeyError ''name'')"
  by (simp add: interpret_body_def re_search_nameless load_foods_object[OF example_loads_nameless]
      aggregate_def py_iter_def py_getitem_def)

section \<open>The claims\<close>

subsection \<open>C1: a payload that does not decode\<close>

text \<open>
  Claim C1 (as amended). The claim says that \<^verbatim>\<open>call_gemini_api\<close> returns a result that reports
  the failure. The decoding of line 83 stands before the \<^verbatim>\<open>try\<close> of line 91: when a
  credential is configured and the base64 payload does not decode, \<^verbatim>\<open>call_gemini_api\<close>
  raises the decoder's exception and the model is not called; for a request whose image
  passed the prefix check, the handler of \<^verbatim>\<open>analyze_food\<close> turns the exception into
  a response of status 500 whose error text ends with the cause.
\<close>

theorem decode_failure_escapes:
  assumes "\<not> no_api_key w"
    and "image_b64 image_data = Inr payload"
    and "b64decode w payload = Inl e"
  shows "call_gemini_api w image_data = (Inl e, []) \<and>
         (\<forall>kvs. map_of kvs ''image'' = Some (JString image_data) \<and>
                prefix ''data:image/'' image_data \<longrightarrow>
            analyze_food w (Inr (JObject kvs)) =
              (Response 500 (ErrorBody (MSG_ANALYSIS_ERROR @ exn_str e)), []))"
proof -
  have c: "call_gemini_api w image_data = (Inl e, [])"
    using assms by (simp add: call_gemini_api_decode_raises)
  then show ?thesis
    by (simp add: analyze_food_def analyze_food_body_valid)
qed

text \<open>The theorem at the payload \<^verbatim>\<open>A\<close>, one base64 character, which CPython refuses.\<close>

theorem decode_failure_escapes_witness:
  "\<not> no_api_key example_world \<and>
   image_b64 ''data:image/png;base64,A'' = Inr ''A'' \<and>
   b64decode example_world ''A'' =
     Inl (Raised (''Invalid base64-encoded string: number of data characters (1) '' @
                  ''cannot be 1 more than a multiple of 4'')) \<and>
   call_gemini_api example_world ''data:image/png;base64,A'' =
     (Inl (Raised (''Invalid base64-encoded string: number of data characters (1) '' @
                   ''cannot be 1 more than a multiple of 4'')), []) \<and>
   analyze_food example_world (image_request ''data:image/png;base64,A'') =
     (Response 500 (ErrorBody (MSG_ANALYSIS_ERROR @
         ''Invalid base64-encoded string: number of data characters (1) '' @
         ''cannot be 1 more than a multiple of 4'')), [])"
proof -
  have k: "\<not> no_api_key example_world" by (rule example_has_key)
  have p: "image_b64 ''data:image/png;base64,A'' = Inr ''A''" by (simp add: image_b64_def)
  have d: "b64decode example_world ''A'' =
     Inl (Raised (''Invalid base64-encoded string: number of data characters (1) '' @
                  ''cannot be 1 more than a multiple of 4''))"
    by (simp add: example_world_def example_b64decode_def)
  show ?thesis
    using k p d decode_failure_escapes[OF k p d] by (simp add: image_request_def)
qed

text \<open>Against the claim as stated: at that payload the function returns no result, it
  raises.\<close>

theorem decode_failure_counterexample:
  "fst (call_gemini_api example_world ''data:image/png;base64,A'') =
     Inl (Raised (''Invalid base64-encoded string: number of data characters (1) '' @
                  ''cannot be 1 more than a multiple of 4''))"
  by (simp add: call_gemini_api_decode_raises[OF example_has_key example_decode_A])

subsection \<open>C2: no fallback classifier\<close>

text \<open>
  Claim C2 (as amended). The claim says that an unavailable or misconfigured service makes
  \<^verbatim>\<open>/analyze\<close> fall back to the fallback classifier. \<^verbatim>\<open>analyze_food\<close> never calls
  \<^verbatim>\<open>analyze_image_mock\<close>. For a request whose image passed the prefix check: when no
  credential is configured the response is 200 with the missing-credential result and the
  model is not called; when the call of the model fails the response is 200 with the
  API-error result. Neither result is a verdict of the mock classifier, all of whose
  verdicts are in \<open>mock_verdicts\<close>.
\<close>

theorem no_fallback_classifier:
  assumes "map_of kvs ''image'' = Some (JString image_data)"
    and "prefix ''data:image/'' image_data"
  shows "(no_api_key w \<longrightarrow>
            analyze_food w (Inr (JObject kvs)) =
              (Response 200 (SuccessBody missing_key_result), []) \<and>
            missing_key_result \<notin> set mock_verdicts) \<and>
         (\<not> no_api_key w \<and>
          bind_exn (image_b64 image_data) (b64decode w) = Inr image_bytes \<and>
          generate_content w image_bytes = Inl e \<longrightarrow>
            analyze_food w (Inr (JObject kvs)) =
              (Response 200 (SuccessBody (api_error_result e)), [image_bytes]) \<and>
            api_error_result e \<notin> set mock_verdicts) \<and>
         analyze_image_mock w' image_data' \<in> set mock_verdicts"
proof -
  have a: "missing_key_result \<notin> set mock_verdicts"
    by (simp add: mock_verdicts_def missing_key_result_def safe_verdict_def hazard_verdict_def)
  have b: "api_error_result e \<notin> set mock_verdicts"
    by (simp add: mock_verdicts_def api_error_result_def safe_verdict_def hazard_verdict_def)
  have c: "analyze_image_mock w' image_data' \<in> set mock_verdicts"
    by (cases "random_choice w'") (simp_all add: analyze_image_mock_def mock_verdicts_def)
  show ?thesis
    using a b c
    by (simp add: analyze_food_def analyze_food_body_valid[OF assms]
        call_gemini_api_no_key call_gemini_api_unavailable)
qed

theorem no_fallback_classifier_witness:
  "no_api_key unconfigured_world \<and>
   analyze_food unconfigured_world (image_request ''data:image/png;base64,AAAA'') =
     (Response 200 (SuccessBody missing_key_result), []) \<and>
   missing_key_result \<notin> set mock_verdicts \<and>
   \<not> no_api_key example_world \<and>
   generate_content example_world [0, 0, 2] = Inl (Raised ''503 Service Unavailable'') \<and>
   analyze_food example_world (image_request ''data:image/png;base64,AAAC'') =
     (Response 200 (SuccessBody (api_error_result (Raised ''503 Service Unavailable''))),
      [[0, 0, 2]]) \<and>
   api_error_result (Raised ''503 Service Unavailable'') \<notin> set mock_verdicts \<and>
   analyze_image_mock unconfigured_world ''data:image/png;base64,AAAA'' \<in> set mock_verdicts"
  using no_fallback_classifier[OF request_AAAA prefix_AAAA, of unconfigured_world "[]" "Raised []"
      unconfigured_world "''data:image/png;base64,AAAA''"]
    no_fallback_classifier[OF request_AAAC prefix_AAAC, of example_world "[0, 0, 2]"
      "Raised ''503 Service Unavailable''" unconfigured_world "''data:image/png;base64,AAAA''"]
    unconfigured_no_key example_has_key example_decode_AAAC example_reply_unavailable
  by (simp add: image_request_def)

text \<open>Against the claim as stated: with no credential the verdict is none of the mock
  classifier's, although in that world the mock classifier would have flagged alcohol.\<close>

theorem no_fallback_counterexample:
  "analyze_food unconfigured_world (image_request ''data:image/png;base64,AAAA'') =
     (Response 200 (SuccessBody missing_key_result), []) \<and>
   missing_key_result \<notin> set mock_verdicts \<and>
   analyze_image_mock unconfigured_world ''data:image/png;base64,AAAA'' = hazard_verdict alcohol"
proof -
  have "analyze_food_body unconfigured_world (Inr (JObject [(''image'', JString ''data:image/png;base64,AAAA'')]))
     = (Inr (Response 200 (SuccessBody missing_key_result)), [])"
    by (simp add: analyze_food_body_valid[OF request_AAAA prefix_AAAA]
        call_gemini_api_no_key[OF unconfigured_no_key])
  moreover have "missing_key_result \<notin> set mock_verdicts"
    by (simp add: mock_verdicts_def missing_key_result_def safe_verdict_def hazard_verdict_def)
  moreover have "analyze_image_mock unconfigured_world ''data:image/png;base64,AAAA'' = hazard_verdict alcohol"
    by (simp add: analyze_image_mock_def unconfigured_world_def example_world_def)
  ultimately show ?thesis by (simp add: analyze_food_def image_request_def)
qed

subsection \<open>C3: the invariant of a result\<close>

text \<open>
  Claim C3. Every result the program produces, by the mock classifier, by the
  interpretation of a reply, or returned by the vision call, has \<^verbatim>\<open>safe\<close> true exactly when
  \<^verbatim>\<open>detected_food\<close> denotes no hazard and \<^verbatim>\<open>details\<close> is the empty string.
\<close>

theorem assessment_invariant:
  "result_invariant (analyze_image_mock w image_data) \<and>
   result_invariant (interpret_reply w text) \<and>
   (\<forall>r sent. call_gemini_api w image_data = (Inr r, sent) \<longrightarrow> result_invariant r)"
  using invariant_mock invariant_call
  by (auto simp: interpret_reply_def intro!: invariant_catch dest: invariant_interpret_body)

theorem assessment_invariant_witness:
  "call_gemini_api example_world ''data:image/png;base64,AAAA'' =
     (Inr (interpret_reply example_world (''Here is the result: '' @ salmon_json)), [[0, 0, 0]]) \<and>
   result_invariant (interpret_reply example_world (''Here is the result: '' @ salmon_json)) \<and>
   result_invariant (analyze_image_mock unconfigured_world []) \<and>
   result_invariant (interpret_reply unconfigured_world ''no json here'')"
  using assessment_invariant[of unconfigured_world "[]" "''no json here''"]
    assessment_invariant[of example_world "''data:image/png;base64,AAAA''"
      "''Here is the result: '' @ salmon_json"]
    call_gemini_api_reply[OF example_has_key example_decode_AAAA example_reply_salmon]
  by simp

subsection \<open>C4: the interpretation of a well-formed reply\<close>

text \<open>
  Claim C4 (as amended). The claim speaks of every reply whose extracted JSON parses to an
  object. The code reaches the two results the claim describes when, in addition, \<^verbatim>\<open>foods\<close>
  is absent or a list of objects and every flagged item has the keys \<^verbatim>\<open>name\<close> and
  \<^verbatim>\<open>details\<close>; an item is flagged when its \<^verbatim>\<open>risk\<close> is truthy. Then: with no flagged item
  the result is safe, with the empty list, the reassurance message and empty details;
  otherwise it is unsafe, with the flagged items' names in input order, the risk message,
  and one line \<^verbatim>\<open>name: details\<close> per flagged item, joined by newlines.
\<close>

theorem interpretation_of_wellformed_reply:
  assumes "re_search text = Some m"
    and "json_loads w m = Inr (JObject kvs)"
    and "(case map_of kvs ''foods'' of None \<Rightarrow> JArray [] | Some v \<Rightarrow> v) = JArray (map JObject items)"
    and "\<forall>f\<in>set (flagged items). map_of f ''name'' \<noteq> None \<and> map_of f ''details'' \<noteq> None"
  shows "interpret_reply w text =
     (if flagged items = []
      then \<lparr>safe = True, detected_food = DList [], message = MSG_SAFE, details = []\<rparr>
      else \<lparr>safe = False,
            detected_food = DList (map (\<lambda>f. dict_get f ''name'') (flagged items)),
            message = MSG_RISK,
            details = py_join [CHR 0x0A]
              (map (\<lambda>f. format_value w (dict_get f ''name'') @ '': '' @
                         format_value w (dict_get f ''details'')) (flagged items))\<rparr>)"
proof -
  have "load_foods w m = Inr (JArray (map JObject items))"
    using load_foods_object[OF assms(2)] assms(3) by simp
  then have "interpret_body w text = aggregate w (JArray (map JObject items))"
    using assms(1) by (simp add: interpret_body_def)
  then show ?thesis
    by (simp add: interpret_reply_def catch_api_error_def aggregate_objects[OF assms(4)]
        no_risk_result_def)
qed

text \<open>The theorem at the reply with one risky food, at the reply with one harmless food,
  and at the reply \<^verbatim>\<open>{}\<close> that has no \<^verbatim>\<open>foods\<close>.\<close>

theorem interpretation_of_wellformed_reply_witness:
  "interpret_reply example_world (''Here is the result: '' @ salmon_json) =
     \<lparr>safe = False, detected_food = DList [JString ''salmon''], message = MSG_RISK,
      details = ''salmon: parasites''\<rparr> \<and>
   interpret_reply example_world salad_json =
     \<lparr>safe = True, detected_food = DList [], message = MSG_SAFE, details = []\<rparr> \<and>
   interpret_reply example_world ''{}'' =
     \<lparr>safe = True, detected_food = DList [], message = MSG_SAFE, details = []\<rparr>"
proof -
  have f0: "(case map_of [] ''foods'' of None \<Rightarrow> JArray [] | Some v \<Rightarrow> v) =
      JArray (map JObject [])"
    by simp
  have w0: "\<forall>f\<in>set (flagged []). map_of f ''name'' \<noteq> None \<and> map_of f ''details'' \<noteq> None"
    by (simp add: flagged_def)
  have f1: "(case map_of [(''foods'', JArray [JObject salmon_item])] ''foods'' of
              None \<Rightarrow> JArray [] | Some v \<Rightarrow> v) = JArray (map JObject [salmon_item])"
    by simp
  have w1: "\<forall>f\<in>set (flagged [salmon_item]). map_of f ''name'' \<noteq> None \<and> map_of f ''details'' \<noteq> None"
    by (simp add: flagged_salmon) (simp add: salmon_item_def)
  have f2: "(case map_of [(''foods'', JArray [JObject salad_item])] ''foods'' of
              None \<Rightarrow> JArray [] | Some v \<Rightarrow> v) = JArray (map JObject [salad_item])"
    by simp
  have w2: "\<forall>f\<in>set (flagged [salad_item]). map_of f ''name'' \<noteq> None \<and> map_of f ''details'' \<noteq> None"
    by (simp add: flagged_salad)
  show ?thesis
    using interpretation_of_wellformed_reply[OF re_search_salmon example_loads_salmon f1 w1]
      interpretation_of_wellformed_reply[OF re_search_salad example_loads_salad f2 w2]
      interpretation_of_wellformed_reply[OF re_search_empty_object example_loads_empty_object f0 w0]
    by (simp add: flagged_salmon flagged_salad)
      (simp add: salmon_item_def dict_get_def format_value_def flagged_def)
qed

text \<open>Against the claim as stated: the JSON parses to an object, one item is flagged, and
  the result carries no list of names but \<^verbatim>\<open>None\<close> and the API-error message.\<close>

theorem interpretation_counterexample:
  "re_search nameless_json = Some nameless_json \<and>
   json_loads example_world nameless_json =
     Inr (JObject [(''foods'', JArray [JObject [(''risk'', JBool True)]])]) \<and>
   flagged [[(''risk'', JBool True)]] = [[(''risk'', JBool True)]] \<and>
   interpret_reply example_world nameless_json =
     \<lparr>safe = False, detected_food = DNone,
      message = MSG_API_ERROR @ [CHR 0x27] @ ''name'' @ [CHR 0x27], details = []\<rparr>"
proof -
  have "interpret_reply example_world nameless_json =
     \<lparr>safe = False, detected_food = DNone,
      message = MSG_API_ERROR @ [CHR 0x27] @ ''name'' @ [CHR 0x27], details = []\<rparr>"
    by (simp add: interpret_reply_def example_interpret_nameless catch_api_error_def
        api_error_result_def quoted_def)
  then show ?thesis
    using re_search_nameless example_loads_nameless
    by (simp add: flagged_def dict_get_def)
qed

subsection \<open>C5: replies without JSON, and JSON that does not parse\<close>

text \<open>
  Claim C5 (as amended). The claim calls the extracted substring the first balanced
  outermost match. The search finds nothing exactly when no opening brace of the text has a
  closing brace after it, and then the result is the extraction failure with the whole
  reply in \<^verbatim>\<open>details\<close>. Otherwise the match runs from the first opening brace of the text to
  its last closing brace, whatever braces lie between; and when \<^verbatim>\<open>json.loads\<close> raises on
  the match, the result is the parse error whose message ends with the cause and whose
  \<^verbatim>\<open>details\<close> is the match.
\<close>

theorem extraction_failures:
  "(re_search text = None \<longleftrightarrow>
      \<not> (\<exists>pre mid post. text = pre @ CHR ''{'' # mid @ CHR ''}'' # post)) \<and>
   (re_search text = None \<longrightarrow>
      interpret_reply w text =
        \<lparr>safe = False, detected_food = DNone, message = MSG_NO_JSON, details = text\<rparr>) \<and>
   (\<forall>m. re_search text = Some m \<longrightarrow>
      (\<exists>pre body post. text = pre @ m @ post \<and> CHR ''{'' \<notin> set pre \<and>
          m = CHR ''{'' # body @ [CHR ''}''] \<and> CHR ''}'' \<notin> set post) \<and>
      (\<forall>e. json_loads w m = Inl e \<longrightarrow>
         interpret_reply w text =
           \<lparr>safe = False, detected_food = DNone, message = MSG_PARSE_ERROR @ exn_str e,
            details = m\<rparr>))"
proof -
  have a: "interpret_reply w text =
        \<lparr>safe = False, detected_food = DNone, message = MSG_NO_JSON, details = text\<rparr>"
    if "re_search text = None"
    using that by (simp add: interpret_reply_def interpret_body_def catch_api_error_def)
  have b: "interpret_reply w text =
           \<lparr>safe = False, detected_food = DNone, message = MSG_PARSE_ERROR @ exn_str e,
            details = m\<rparr>"
    if "re_search text = Some m" "json_loads w m = Inl e" for m e
    using that
    by (simp add: interpret_reply_def interpret_body_def catch_api_error_def load_foods_raises)
  show ?thesis
    using re_search_None[of "text"] a b re_search_Some[of "text"] by blast
qed

theorem extraction_failures_witness:
  "re_search ''no json here'' = None \<and>
   interpret_reply example_world ''no json here'' =
     \<lparr>safe = False, detected_food = DNone, message = MSG_NO_JSON, details = ''no json here''\<rparr> \<and>
   re_search (''Draft: '' @ malformed_json @ '' (end)'') = Some malformed_json \<and>
   json_loads example_world malformed_json =
     Inl (Raised ''Expecting value: line 1 column 12 (char 11)'') \<and>
   interpret_reply example_world (''Draft: '' @ malformed_json @ '' (end)'') =
     \<lparr>safe = False, detected_food = DNone,
      message = MSG_PARSE_ERROR @ ''Expecting value: line 1 column 12 (char 11)'',
      details = malformed_json\<rparr>"
proof -
  have n: "re_search ''no json here'' = None" by (simp add: re_search_def)
  show ?thesis
    using n re_search_malformed example_loads_malformed
      extraction_failures[of "''no json here''" example_world]
      extraction_failures[of "''Draft: '' @ malformed_json @ '' (end)''" example_world]
    by simp
qed

text \<open>Against the claim as stated: with two objects in the reply the match spans both,
  where the first balanced one is the first object; with an unclosed inner brace the match
  is not balanced at all.\<close>

theorem extraction_counterexample:
  "re_search ''{a} {b}'' = Some ''{a} {b}'' \<and> first_balanced ''{a} {b}'' = Some ''{a}'' \<and>
   re_search ''{ { }'' = Some ''{ { }'' \<and> first_balanced ''{ { }'' = None"
  by (simp add: re_search_def first_balanced_def)

subsection \<open>C6: no credential\<close>

text \<open>
  Claim C6. When no credential is configured, \<^verbatim>\<open>call_gemini_api\<close> returns the result with
  \<^verbatim>\<open>safe\<close> false, \<^verbatim>\<open>detected_food\<close> \<^verbatim>\<open>None\<close>, the message about the missing key and empty
  \<^verbatim>\<open>details\<close>, for every image payload and without calling the model; and for every request
  that reaches the call, \<^verbatim>\<open>analyze_food\<close> answers with status 200 and that result as the
  success payload.
\<close>

theorem missing_credential_reported:
  assumes "no_api_key w"
  shows "call_gemini_api w image_data =
           (Inr \<lparr>safe = False, detected_food = DNone, message = MSG_NO_KEY, details = []\<rparr>, []) \<and>
         (\<forall>kvs. map_of kvs ''image'' = Some (JString image_data) \<and>
                prefix ''data:image/'' image_data \<longrightarrow>
            analyze_food w (Inr (JObject kvs)) =
              (Response 200
                 (SuccessBody \<lparr>safe = False, detected_food = DNone, message = MSG_NO_KEY,
                               details = []\<rparr>), []))"
  using assms
  by (simp add: analyze_food_def analyze_food_body_valid call_gemini_api_no_key
      missing_key_result_def)

theorem missing_credential_reported_witness:
  "no_api_key unconfigured_world \<and>
   call_gemini_api unconfigured_world ''data:image/png;base64,AAAA'' =
     (Inr \<lparr>safe = False, detected_food = DNone, message = MSG_NO_KEY, details = []\<rparr>, []) \<and>
   analyze_food unconfigured_world (image_request ''data:image/png;base64,AAAA'') =
     (Response 200
        (SuccessBody \<lparr>safe = False, detected_food = DNone, message = MSG_NO_KEY,
                      details = []\<rparr>), [])"
  using missing_credential_reported[OF unconfigured_no_key, of "''data:image/png;base64,AAAA''"]
    unconfigured_no_key
  by (simp add: image_request_def)

subsection \<open>C7: requests without a usable image\<close>

text \<open>
  Claim C7 (as amended). The claim speaks of every body lacking an image field, of an empty
  or absent body, and of every image field not starting with \<^verbatim>\<open>data:image/\<close>. What the code
  answers with 400, on what \<^verbatim>\<open>request.get_json()\<close> returns: a parsed body that is falsy
  (\<^verbatim>\<open>None\<close>, \<^verbatim>\<open>{}\<close>, \<^verbatim>\<open>[]\<close>, the empty string, zero, false) or a container (object, array,
  string) that does not contain \<^verbatim>\<open>'image'\<close> gets the missing-image error; an object whose
  \<^verbatim>\<open>image\<close> is a string that does not start with \<^verbatim>\<open>data:image/\<close> gets the invalid-format
  error. When \<^verbatim>\<open>request.get_json()\<close> raises instead of returning, as it does on a request
  with no body to parse, the handler of line 176 answers with status 500 and the cause. In
  all three cases the model is not called.
\<close>

theorem bad_request_rejected:
  "(\<not> truthy data \<or> py_contains ''image'' data = Inr False \<longrightarrow>
      analyze_food w (Inr data) = (Response 400 (ErrorBody MSG_NO_IMAGE), [])) \<and>
   (map_of kvs ''image'' = Some (JString s) \<and> \<not> prefix ''data:image/'' s \<longrightarrow>
      analyze_food w (Inr (JObject kvs)) = (Response 400 (ErrorBody MSG_INVALID_FORMAT), [])) \<and>
   analyze_food w (Inl e) = (Response 500 (ErrorBody (MSG_ANALYSIS_ERROR @ exn_str e)), [])"
proof -
  have a: "analyze_food w (Inr data) = (Response 400 (ErrorBody MSG_NO_IMAGE), [])"
    if "\<not> truthy data \<or> py_contains ''image'' data = Inr False"
    using that by (auto simp: analyze_food_def analyze_food_body_def bad_request_def)
  have b: "analyze_food w (Inr (JObject kvs)) = (Response 400 (ErrorBody MSG_INVALID_FORMAT), [])"
    if m: "map_of kvs ''image'' = Some (JString s)" and p: "\<not> prefix ''data:image/'' s"
  proof -
    from m have ne: "kvs \<noteq> []" by auto
    from m have "''image'' \<in> set (map fst kvs)" by (rule map_of_Some_in_keys)
    then have c: "py_contains ''image'' (JObject kvs) = Inr True" by (simp add: py_contains_def)
    have g: "bind_exn (py_getitem (JObject kvs) ''image'') startswith_of = Inr s"
      using m by (simp add: py_getitem_def startswith_of_def)
    show ?thesis
      unfolding analyze_food_def analyze_food_body_def using ne c g p by (simp add: bad_request_def)
  qed
  have c: "analyze_food w (Inl e) = (Response 500 (ErrorBody (MSG_ANALYSIS_ERROR @ exn_str e)), [])"
    by (simp add: analyze_food_def analyze_food_body_def)
  from a b c show ?thesis by blast
qed

theorem bad_request_rejected_witness:
  "analyze_food example_world (Inr JNull) = (Response 400 (ErrorBody MSG_NO_IMAGE), []) \<and>
   analyze_food example_world (Inr (JObject [])) = (Response 400 (ErrorBody MSG_NO_IMAGE), []) \<and>
   analyze_food example_world (Inr (JObject [(''photo'', JString ''data:image/png;base64,AAAA'')])) =
     (Response 400 (ErrorBody MSG_NO_IMAGE), []) \<and>
   analyze_food example_world (image_request ''notadatauri'') =
     (Response 400 (ErrorBody MSG_INVALID_FORMAT), []) \<and>
   analyze_food example_world (Inl no_body_error) =
     (Response 500 (ErrorBody (MSG_ANALYSIS_ERROR @ exn_str no_body_error)), [])"
  using bad_request_rejected[of JNull example_world "[(''image'', JString ''notadatauri'')]"
      "''notadatauri''" no_body_error]
    bad_request_rejected[of "JObject []" example_world "[]" "[]" no_body_error]
    bad_request_rejected[of "JObject [(''photo'', JString ''data:image/png;base64,AAAA'')]"
      example_world "[]" "[]" no_body_error]
  by (simp add: image_request_def py_contains_def)

text \<open>Against the claim as stated: a request with no body, on which \<^verbatim>\<open>request.get_json()\<close>
  raises, is answered with status 500, not 400; an image field that is a number does not
  start with \<^verbatim>\<open>data:image/\<close>, and a body that is a number has no image field, and both end
  in the handler of line 176 with status 500 too.\<close>

theorem bad_request_counterexample:
  "analyze_food example_world (Inl no_body_error) =
     (Response 500 (ErrorBody (MSG_ANALYSIS_ERROR @
        ''400 Bad Request: The browser (or proxy) sent a request that this server '' @
        ''could not understand.'')), []) \<and>
   analyze_food example_world (Inr (JObject [(''image'', JInt 5)])) =
     (Response 500 (ErrorBody (MSG_ANALYSIS_ERROR @
        [CHR 0x27] @ ''int'' @ [CHR 0x27] @ '' object has no attribute '' @
        [CHR 0x27] @ ''startswith'' @ [CHR 0x27])), []) \<and>
   analyze_food example_world (Inr (JInt 5)) =
     (Response 500 (ErrorBody (MSG_ANALYSIS_ERROR @
        ''argument of type '' @ [CHR 0x27] @ ''int'' @ [CHR 0x27] @ '' is not iterable'')), [])"
  by (simp add: analyze_food_def analyze_food_body_def py_contains_def py_getitem_def
      startswith_of_def quoted_def no_body_error_def)

subsection \<open>C8: stripping the prefix\<close>

text \<open>
  Claim C8 (as amended). The claim says that everything after the first comma is the base64
  data. The code splits at every comma and takes the element at index 1: for every payload
  with a comma, the base64 data is the text between the first comma and the next one, or the
  end of the string when there is no second comma; a payload with no comma is used whole.
\<close>

theorem image_b64_segment:
  "image_b64 s =
     Inr (if CHR '','' \<in> set s
          then takeWhile (\<lambda>c. c \<noteq> CHR '','') (after_first_comma s) else s)"
proof (cases "CHR '','' \<in> set s")
  case True
  then obtain rest where "py_split (CHR '','') s =
      takeWhile (\<lambda>c. c \<noteq> CHR '','') s #
      takeWhile (\<lambda>c. c \<noteq> CHR '','') (after_first_comma s) # rest"
    using py_split_second[of "CHR '',''" s] by (auto simp: after_first_comma_def)
  with True show ?thesis by (simp add: image_b64_def)
next
  case False
  then show ?thesis by (simp add: image_b64_def)
qed

theorem image_b64_segment_witness:
  "image_b64 ''data:image/png;base64,AAAA'' = Inr ''AAAA'' \<and> image_b64 ''AAAA'' = Inr ''AAAA''"
  using image_b64_segment[of "''data:image/png;base64,AAAA''"] image_b64_segment[of "''AAAA''"]
  by (simp add: after_first_comma_def)

text \<open>Against the claim as stated: with a second comma, what follows it is dropped.\<close>

theorem image_b64_counterexample:
  "image_b64 ''data:image/png;base64,AAAA,BBBB'' = Inr ''AAAA'' \<and>
   after_first_comma ''data:image/png;base64,AAAA,BBBB'' = ''AAAA,BBBB'' \<and>
   image_b64 ''data:image/png;base64,AAAA,BBBB'' \<noteq>
     Inr (after_first_comma ''data:image/png;base64,AAAA,BBBB'')"
  by (simp add: image_b64_def after_first_comma_def)

subsection \<open>C9: the interpretation is deterministic\<close>

text \<open>
  Claim C9. The interpretation of a reply is a function of the reply text and of the two
  deterministic library functions it calls (\<^verbatim>\<open>json.loads\<close> and \<^verbatim>\<open>str\<close>): any two runs on the
  same text give the same result, whatever the random generator, the credential, the base64
  decoder and the remote model are in the two runs.
\<close>

theorem interpretation_deterministic:
  assumes "json_loads w = json_loads w'" and "py_str w = py_str w'"
  shows "interpret_reply w text = interpret_reply w' text"
  using interpret_body_library[OF assms] by (simp add: interpret_reply_def)

text \<open>Two worlds that differ in the random draw and the credential, where the mock
  classifier answers differently, interpret a reply alike.\<close>

theorem interpretation_deterministic_witness:
  "json_loads example_world = json_loads unconfigured_world \<and>
   py_str example_world = py_str unconfigured_world \<and>
   random_random example_world \<noteq> random_random unconfigured_world \<and>
   GEMINI_API_KEY example_world \<noteq> GEMINI_API_KEY unconfigured_world \<and>
   interpret_reply example_world (''Here is the result: '' @ salmon_json) =
     interpret_reply unconfigured_world (''Here is the result: '' @ salmon_json) \<and>
   analyze_image_mock example_world [] \<noteq> analyze_image_mock unconfigured_world []"
proof -
  have j: "json_loads example_world = json_loads unconfigured_world"
    by (simp add: unconfigured_world_def)
  have p: "py_str example_world = py_str unconfigured_world"
    by (simp add: unconfigured_world_def)
  have r: "random_random example_world \<noteq> random_random unconfigured_world"
    by (simp add: unconfigured_world_def example_world_def)
  have k: "GEMINI_API_KEY example_world \<noteq> GEMINI_API_KEY unconfigured_world"
    by (simp add: unconfigured_world_def example_world_def)
  have m: "analyze_image_mock example_world [] \<noteq> analyze_image_mock unconfigured_world []"
    by (simp add: analyze_image_mock_def unconfigured_world_def example_world_def
        safe_verdict_def hazard_verdict_def)
  show ?thesis
    using j p r k m interpretation_deterministic[OF j p] by simp
qed

subsection \<open>C10: a flagged item without name or details\<close>



end
